theory Spec2Isabelle
  imports Complex_Main "HOL-Library.Sublist"
begin

section \<open>Data model of the client (services/api.ts)\<close>

text \<open>
  \<^verbatim>\<open>status: 'queued' | 'processing' | 'completed' | 'error'\<close> is a closed union of four
  string literals; it becomes a datatype with four constructors.
\<close>

datatype job_state = Queued | Processing | Completed | Error

text \<open>
  \<^verbatim>\<open>interface JobStatusResponse\<close>. The field \<^verbatim>\<open>error\<close> is called \<open>error_text\<close> here;
  \<^verbatim>\<open>string | null\<close> is \<open>string option\<close>; \<^verbatim>\<open>progress: number\<close> is an integer.
\<close>

record JobStatusResponse =
  job_id :: string
  status :: job_state
  progress :: int
  message :: "string option"
  video_id :: "string option"
  error_text :: "string option"
  translation_service :: "string option"

text \<open>JavaScript truthiness of a \<^verbatim>\<open>string | null\<close>: \<^verbatim>\<open>null\<close> and \<^verbatim>\<open>''\<close> are falsy.\<close>

fun truthy :: "string option \<Rightarrow> bool" where
  "truthy None = False"
| "truthy (Some s) = (s \<noteq> [])"

text \<open>The string held by a truthy \<^verbatim>\<open>string | null\<close>.\<close>

fun string_of :: "string option \<Rightarrow> string" where
  "string_of None = []"
| "string_of (Some s) = s"

section \<open>The polling hook (hooks/useJobPolling.ts)\<close>

text \<open>
  One activation of the effect of \<^verbatim>\<open>useJobPolling(jobId, enabled)\<close>, from the run of the
  effect body to its cleanup. The React state is \<open>jobStatus\<close> and \<open>isPolling\<close>;
  \<open>intervalRef\<close> says whether \<^verbatim>\<open>intervalRef.current\<close> holds a timer handle, and
  \<open>timerActive\<close> whether that timer is still scheduled (\<^verbatim>\<open>clearInterval\<close> stops the timer
  and leaves the handle in the ref). \<open>calls\<close> logs every \<^verbatim>\<open>videoApi.getJobStatus(jobId)\<close>
  request issued, by job id, and \<open>inflight\<close> counts the requests whose promise has not
  settled yet: \<^verbatim>\<open>poll\<close> is async, so a tick of the interval can start a second request
  while an earlier one is still awaited.
\<close>

record hook_state =
  jobStatus :: "JobStatusResponse option"
  isPolling :: bool
  intervalRef :: bool
  timerActive :: bool
  inflight :: nat
  calls :: "string list"

definition hook_init :: hook_state where
  "hook_init = \<lparr> jobStatus = None, isPolling = False, intervalRef = False,
                  timerActive = False, inflight = 0, calls = [] \<rparr>"

text \<open>
  The effect body: nothing happens when \<^verbatim>\<open>!jobId || !enabled\<close>; otherwise
  \<^verbatim>\<open>setIsPolling(true)\<close>, the immediate \<^verbatim>\<open>poll()\<close> (which issues its request before the
  first \<^verbatim>\<open>await\<close>) and \<^verbatim>\<open>intervalRef.current = setInterval(poll, 2000)\<close>.
\<close>

definition useJobPolling :: "string option \<Rightarrow> bool \<Rightarrow> hook_state" where
  "useJobPolling jobId enabled =
     (case jobId of
        None \<Rightarrow> hook_init
      | Some j \<Rightarrow>
          if j = [] \<or> \<not> enabled then hook_init
          else hook_init \<lparr> isPolling := True, calls := [j], inflight := 1,
                            intervalRef := True, timerActive := True \<rparr>)"

text \<open>\<^verbatim>\<open>if (intervalRef.current) { clearInterval(intervalRef.current); }\<close>\<close>

definition clearIntervalRef :: "hook_state \<Rightarrow> hook_state" where
  "clearIntervalRef s = (if intervalRef s then s \<lparr> timerActive := False \<rparr> else s)"

text \<open>
  What can happen after the effect ran: the interval fires (\<open>Tick\<close>, only while the timer
  is scheduled) and calls \<^verbatim>\<open>poll\<close>; an awaited request resolves with a response
  (\<open>Resolve\<close>, the \<^verbatim>\<open>try\<close> branch) or rejects (\<open>Reject\<close>, the \<^verbatim>\<open>catch\<close> branch); the
  effect's cleanup function runs (\<open>Cleanup\<close>). A settlement with no request in flight
  cannot happen and leaves the state as it is.
\<close>

datatype hook_event = Tick | Resolve JobStatusResponse | Reject | Cleanup

fun poll_step :: "string \<Rightarrow> hook_state \<Rightarrow> hook_event \<Rightarrow> hook_state" where
  "poll_step j s Tick =
     (if timerActive s then s \<lparr> inflight := inflight s + 1, calls := calls s @ [j] \<rparr> else s)"
| "poll_step j s (Resolve r) =
     (if inflight s = 0 then s
      else let s1 = s \<lparr> inflight := inflight s - 1, jobStatus := Some r \<rparr>
           in if status r = Completed \<or> status r = Error
              then clearIntervalRef (s1 \<lparr> isPolling := False \<rparr>)
              else s1)"
| "poll_step j s Reject =
     (if inflight s = 0 then s
      else clearIntervalRef (s \<lparr> inflight := inflight s - 1, isPolling := False \<rparr>))"
| "poll_step j s Cleanup = clearIntervalRef s"

fun poll_run :: "string \<Rightarrow> hook_state \<Rightarrow> hook_event list \<Rightarrow> hook_state" where
  "poll_run j s [] = s"
| "poll_run j s (e # es) = poll_run j (poll_step j (s::hook_state) e) es"

text \<open>The hook for \<open>jobId\<close> and \<open>enabled\<close> after the events \<open>es\<close>.\<close>

definition hook_after :: "string option \<Rightarrow> bool \<Rightarrow> hook_event list \<Rightarrow> hook_state" where
  "hook_after jobId enabled es =
     poll_run (case jobId of None \<Rightarrow> [] | Some j \<Rightarrow> j) (useJobPolling jobId enabled) es"

subsection \<open>Invariants of the hook\<close>

text \<open>A timer or a request in flight exists only after the effect stored the handle.\<close>

definition hook_inv :: "hook_state \<Rightarrow> bool" where
  "hook_inv s = ((timerActive s \<or> 0 < inflight s) \<longrightarrow> intervalRef s)"

lemma hook_inv_step: "hook_inv s \<Longrightarrow> hook_inv (poll_step j s e)"
  by (cases e) (auto simp: hook_inv_def clearIntervalRef_def Let_def)

lemma hook_inv_run: "hook_inv s \<Longrightarrow> hook_inv (poll_run j s es)"
  by (induction es arbitrary: s) (simp_all add: hook_inv_step)

lemma hook_inv_start: "hook_inv (useJobPolling jobId enabled)"
  by (simp add: hook_inv_def useJobPolling_def hook_init_def split: option.splits)

lemma hook_inv_after: "hook_inv (hook_after jobId enabled es)"
  by (simp add: hook_after_def hook_inv_run hook_inv_start)

text \<open>Once the timer is stopped, no event issues a request or touches \<open>isPolling\<close>.\<close>

lemma stopped_step:
  "\<not> timerActive s \<Longrightarrow> \<not> isPolling s \<Longrightarrow>
     \<not> timerActive (poll_step j s e) \<and> \<not> isPolling (poll_step j s e) \<and>
     calls (poll_step j s e) = calls s"
  by (cases e) (auto simp: clearIntervalRef_def Let_def)

lemma stopped_run:
  "\<not> timerActive s \<Longrightarrow> \<not> isPolling s \<Longrightarrow>
     \<not> timerActive (poll_run j s es) \<and> \<not> isPolling (poll_run j s es) \<and>
     calls (poll_run j s es) = calls s"
proof (induction es arbitrary: s)
  case Nil
  then show ?case by simp
next
  case (Cons e es)
  from stopped_step [OF Cons.prems, of j e]
  have a: "\<not> timerActive (poll_step j s e)" and b: "\<not> isPolling (poll_step j s e)"
    and c: "calls (poll_step j s e) = calls s" by simp_all
  from Cons.IH [OF a b] c show ?case by simp
qed

text \<open>With no request in flight and the timer stopped, \<open>jobStatus\<close> never changes again.\<close>

lemma quiet_step:
  "\<not> timerActive s \<Longrightarrow> inflight s = 0 \<Longrightarrow>
     \<not> timerActive (poll_step j s e) \<and> inflight (poll_step j s e) = 0 \<and>
     jobStatus (poll_step j s e) = jobStatus s"
  by (cases e) (auto simp: clearIntervalRef_def)

lemma quiet_run:
  "\<not> timerActive s \<Longrightarrow> inflight s = 0 \<Longrightarrow> jobStatus (poll_run j s es) = jobStatus s"
proof (induction es arbitrary: s)
  case Nil
  then show ?case by simp
next
  case (Cons e es)
  from quiet_step [OF Cons.prems, of j e]
  have a: "\<not> timerActive (poll_step j s e)" and b: "inflight (poll_step j s e) = 0"
    and c: "jobStatus (poll_step j s e) = jobStatus s" by simp_all
  from Cons.IH [OF a b] c show ?case by simp
qed

section \<open>The subtitle overlay (components/VideoPlayer/SubtitleOverlay.tsx)\<close>

text \<open>\<^verbatim>\<open>interface TranslationSegment\<close>; \<^verbatim>\<open>start\<close> and \<^verbatim>\<open>duration\<close> are seconds.\<close>

record TranslationSegment =
  start :: real
  duration :: real
  original :: string
  translated :: string

text \<open>
  \<^verbatim>\<open>Array.prototype.join(sep)\<close> on an array of strings: the elements in array order with
  \<open>sep\<close> between two neighbours, the empty string for the empty array.
\<close>

fun join :: "string \<Rightarrow> string list \<Rightarrow> string" where
  "join sep [] = []"
| "join sep [x] = x"
| "join sep (x # y # ys) = x @ sep @ join sep (y # ys)"

text \<open>
  What the component returns: \<^verbatim>\<open>null\<close> (\<open>None\<close>) or the overlay element, of which the
  model keeps the \<^verbatim>\<open>data-fullscreen\<close> flag and the text of the two
  \<^verbatim>\<open>subtitle-line\<close> children.
\<close>

record overlay =
  data_fullscreen :: bool
  subtitle_original :: string
  subtitle_translated :: string

text \<open>
  The render function of the component; \<open>isFullscreen\<close> is the component's state of
  the same name, which the effect keeps up to date.
\<close>

definition SubtitleOverlay :: "TranslationSegment list \<Rightarrow> bool \<Rightarrow> overlay option" where
  "SubtitleOverlay segments isFullscreen =
     (if length segments = 0 then None
      else let originalText = join '' '' (map original segments);
               translatedText = join '' '' (map translated segments)
           in Some \<lparr> data_fullscreen = isFullscreen,
                     subtitle_original = originalText,
                     subtitle_translated = translatedText \<rparr>)"

text \<open>
  Where the text of the \<open>i\<close>-th element starts in a line joined with a separator of
  length one: after the earlier texts and one separator for each of them.
\<close>

definition offset :: "string list \<Rightarrow> nat \<Rightarrow> nat" where
  "offset ts i = sum_list (map (\<lambda>t. length t + 1) (take i ts))"

subsection \<open>Facts about \<open>join\<close>\<close>

lemma join_Cons: "ts \<noteq> [] \<Longrightarrow> join sep (t # ts) = t @ sep @ join sep ts"
  by (cases ts) simp_all

lemma length_join:
  "ts \<noteq> [] \<Longrightarrow>
     length (join [c] ts) + 1 = sum_list (map (\<lambda>t. length t + 1) ts)"
proof (induction ts)
  case Nil
  then show ?case by simp
next
  case (Cons t ts)
  show ?case
  proof (cases "ts = []")
    case True
    then show ?thesis by simp
  next
    case False
    with Cons.IH have "length (join [c] ts) + 1 = sum_list (map (\<lambda>t. length t + 1) ts)"
      by simp
    with False show ?thesis by (simp add: join_Cons)
  qed
qed

lemma join_at_offset:
  "i < length ts \<Longrightarrow> take (length (ts ! i)) (drop (offset ts i) (join [c] ts)) = ts ! i"
proof (induction ts arbitrary: i)
  case Nil
  then show ?case by simp
next
  case (Cons t ts)
  show ?case
  proof (cases i)
    case 0
    then show ?thesis by (cases ts) (simp_all add: offset_def)
  next
    case (Suc k)
    with Cons.prems have k: "k < length ts" by simp
    then have ne: "ts \<noteq> []" by auto
    from Cons.IH [OF k]
    have "take (length (ts ! k)) (drop (offset ts k) (join [c] ts)) = ts ! k" .
    with Suc ne show ?thesis by (simp add: join_Cons offset_def)
  qed
qed

section \<open>Usage statistics (services/api.ts, \<^verbatim>\<open>usageApi\<close>)\<close>

text \<open>
  \<^verbatim>\<open>interface UsageStats\<close> and \<^verbatim>\<open>interface UsageStatsResponse\<close>. The response has the
  fields of \<^verbatim>\<open>UsageStats\<close> and the optional list \<^verbatim>\<open>services\<close>. The entries of
  \<^verbatim>\<open>models\<close> and \<^verbatim>\<open>daily_usage\<close> are anonymous object types in the source; their fields
  carry the prefixes \<open>m_\<close> and \<open>d_\<close> here.
\<close>

record model_usage =
  m_model :: string
  m_tokens :: int
  m_input_tokens :: int
  m_output_tokens :: int
  m_requests :: int

record daily_usage_entry =
  d_date :: string
  d_total_tokens :: int
  d_requests :: int

record UsageStats =
  service :: "string option"
  total_tokens :: int
  input_tokens :: int
  output_tokens :: int
  requests :: int
  models :: "model_usage list"
  daily_usage :: "daily_usage_entry list"
  period_days :: int

record UsageStatsResponse = UsageStats +
  services :: "UsageStats list option"

text \<open>
  The part of axios that \<^verbatim>\<open>getStats\<close> uses: a GET request is a path and the \<^verbatim>\<open>params\<close>
  object (its keys in insertion order), and \<^verbatim>\<open>api.get\<close> either rejects with an error or
  resolves with a response whose body is \<^verbatim>\<open>data\<close>. The transport itself is a parameter
  \<open>api_get\<close> of the model.
\<close>

datatype param_value = Num int | Str string

record get_request =
  url :: string
  params :: "(string \<times> param_value) list"

record 'a axios_response =
  http_status :: nat
  data :: 'a

text \<open>
  Lines 557 to 560 of \<^verbatim>\<open>getStats\<close>: \<^verbatim>\<open>const params: any = { days }\<close> with the default
  \<^verbatim>\<open>days = 30\<close> for an argument that is left out, then
  \<^verbatim>\<open>if (service) { params.service = service; }\<close>.
\<close>

definition getStats_request :: "string option \<Rightarrow> int option \<Rightarrow> get_request" where
  "getStats_request service_arg days_arg =
     (let days = (case days_arg of None \<Rightarrow> 30 | Some d \<Rightarrow> d);
          params0 = [(''days'', Num days)];
          params1 = (case service_arg of
                       None \<Rightarrow> params0
                     | Some sv \<Rightarrow> if sv \<noteq> [] then params0 @ [(''service'', Str sv)]
                                 else params0)
      in \<lparr> url = ''/api/usage/stats'', params = params1 \<rparr>)"

definition getStats ::
  "(get_request \<Rightarrow> 'e + UsageStatsResponse axios_response) \<Rightarrow>
     string option \<Rightarrow> int option \<Rightarrow> 'e + UsageStatsResponse" where
  "getStats api_get service_arg days_arg =
     (case api_get (getStats_request service_arg days_arg) of
        Inl e \<Rightarrow> Inl e
      | Inr response \<Rightarrow> Inr (data response))"

section \<open>The job status badge (components/JobStatus/JobStatus.tsx)\<close>

text \<open>The string literal of each member of the status union.\<close>

fun status_literal :: "job_state \<Rightarrow> string" where
  "status_literal Queued = ''queued''"
| "status_literal Processing = ''processing''"
| "status_literal Completed = ''completed''"
| "status_literal Error = ''error''"

text \<open>
  \<^verbatim>\<open>getStatusText\<close>: a switch on the status string with a default branch that returns
  the string itself. The label \<^verbatim>\<open>Concluido\<close> is written with an acute accent on the i in
  the source; it is given here by its UTF-8 bytes.
\<close>

definition label_completed :: string where
  "label_completed = ''Conclu'' @ [char_of (0xC3 :: nat), char_of (0xAD :: nat)] @ ''do''"

definition getStatusText :: "string \<Rightarrow> string" where
  "getStatusText st =
     (if st = ''queued'' then ''Na fila''
      else if st = ''processing'' then ''Processando''
      else if st = ''completed'' then label_completed
      else if st = ''error'' then ''Erro''
      else st)"

section \<open>The Job Manager\<close>

text \<open>
  Modelled from the spec: the Job Manager of the backend (the Python application
  \<^verbatim>\<open>app.main\<close> that \<^verbatim>\<open>run_server.sh\<close> starts) is not among the sources. The model
  follows sections 3 and 4.1 of the specification: the Job record, the operations
  \<^verbatim>\<open>submit\<close>, \<^verbatim>\<open>getStatus\<close> and \<^verbatim>\<open>advance\<close>, and the transitions
  queued to processing (a worker picks the job up), processing to completed (all
  segments done), and queued or processing to error.
\<close>

text \<open>Modelled from the spec: the typed failures of a translation attempt (section 4.3).\<close>

datatype failure = QuotaExceeded | InvalidCredential | Timeout | MalformedResponse | UnknownFailure

text \<open>
  Modelled from the spec: the outcome of one segment round as \<^verbatim>\<open>advance\<close> receives it,
  the translated text or the last concrete failure after all candidates were exhausted.
\<close>

datatype round_outcome = Translated string | Exhausted failure

text \<open>Modelled from the spec: Segment (section 3).\<close>

record Segment =
  seg_start :: real
  seg_duration :: real
  originalText :: string
  translatedText :: "string option"

text \<open>
  Modelled from the spec: Job (section 3), with the video and language pair the job was
  submitted for and its ordered sequence of segments.
\<close>

record Job =
  identity :: nat
  video :: string
  sourceLang :: string
  targetLang :: string
  job_status :: job_state
  job_progress :: nat
  job_message :: "string option"
  job_error :: "failure option"
  resultRef :: "string option"
  activeProvider :: "string option"
  job_segments :: "Segment list"

text \<open>Modelled from the spec: \<^verbatim>\<open>totalSegments\<close>, the number of segments of the job.\<close>

definition totalSegments :: "Job \<Rightarrow> nat" where
  "totalSegments j = length (job_segments j)"

text \<open>Modelled from the spec: \<^verbatim>\<open>completedSegments\<close>, the number of segments whose
  \<open>translatedText\<close> is set.\<close>

definition completedSegments :: "Job \<Rightarrow> nat" where
  "completedSegments j = length (filter (\<lambda>sg. translatedText sg \<noteq> None) (job_segments j))"

text \<open>
  Modelled from the spec: the Job Manager owns the jobs; a job's identity is its position
  in the list of jobs, so identities are never reused. \<open>configured\<close> is what the Key
  Vault's \<^verbatim>\<open>listConfiguredProviders\<close> returns.
\<close>

record JobManager =
  configured :: "string list"
  jobs :: "Job list"

text \<open>Modelled from the spec: the failures of \<^verbatim>\<open>submit\<close> and \<^verbatim>\<open>getStatus\<close>.\<close>

datatype jm_error = NoProviderConfigured | NotFound

text \<open>
  Modelled from the spec: \<^verbatim>\<open>submit(sourceLang, targetLang, rawSegments) -> jobId\<close>
  validates that at least one configured provider exists, fails with
  \<^verbatim>\<open>NoProviderConfigured\<close> otherwise, and enqueues: the new job is queued with progress 0
  and no segment translated. A raw segment is (start, duration, text).
\<close>

definition new_job ::
  "nat \<Rightarrow> string \<Rightarrow> string \<Rightarrow> string \<Rightarrow> (real \<times> real \<times> string) list \<Rightarrow> Job" where
  "new_job jid vid src tgt rawSegments =
     \<lparr> identity = jid, video = vid, sourceLang = src, targetLang = tgt,
       job_status = Queued, job_progress = 0, job_message = None, job_error = None,
       resultRef = None, activeProvider = None,
       job_segments = map (\<lambda>(st, du, tx). \<lparr> seg_start = st, seg_duration = du,
                              originalText = tx, translatedText = None \<rparr>) rawSegments \<rparr>"

text \<open>Modelled from the spec: \<^verbatim>\<open>submit\<close> itself; the new job's identity is the next free position.\<close>

definition submit ::
  "JobManager \<Rightarrow> string \<Rightarrow> string \<Rightarrow> string \<Rightarrow> (real \<times> real \<times> string) list
     \<Rightarrow> jm_error + (nat \<times> JobManager)" where
  "submit m vid src tgt rawSegments =
     (if configured m = [] then Inl NoProviderConfigured
      else let jid = length (jobs m)
           in Inr (jid, m \<lparr> jobs := jobs m @ [new_job jid vid src tgt rawSegments] \<rparr>))"

text \<open>Modelled from the spec: \<^verbatim>\<open>getStatus(jobId) -> Job\<close>, \<^verbatim>\<open>NotFound\<close> for an unknown id.\<close>

definition getStatus :: "JobManager \<Rightarrow> nat \<Rightarrow> jm_error + Job" where
  "getStatus m jid = (if jid < length (jobs m) then Inr (jobs m ! jid) else Inl NotFound)"

text \<open>Modelled from the spec: a worker picks a queued job up.\<close>

definition pickUp :: "Job \<Rightarrow> Job" where
  "pickUp j = (if job_status j = Queued then j \<lparr> job_status := Processing \<rparr> else j)"

text \<open>
  Modelled from the spec: \<^verbatim>\<open>advance(jobId, segmentIndex, outcome)\<close> on a processing job.
  A translated segment has its \<open>translatedText\<close> overwritten in place, then
  \<^verbatim>\<open>progress = floor(100 * completedSegments / totalSegments)\<close>, the message names the
  active provider, and the job is completed when all segments are done. An exhausted
  round sets the status to error with the last failure. A job that is not processing
  (not picked up yet, or terminal) and an index outside the segments change nothing.
\<close>

definition advance_job :: "Job \<Rightarrow> nat \<Rightarrow> string \<Rightarrow> round_outcome \<Rightarrow> Job" where
  "advance_job j segmentIndex provider outcome =
     (if job_status j \<noteq> Processing \<or> totalSegments j \<le> segmentIndex then j
      else case outcome of
        Exhausted f \<Rightarrow> j \<lparr> job_status := Error, job_error := Some f \<rparr>
      | Translated t \<Rightarrow>
          let j1 = j \<lparr> job_segments := (job_segments j)
                         [segmentIndex := (job_segments j ! segmentIndex)
                                            \<lparr> translatedText := Some t \<rparr>] \<rparr>;
              finished = (completedSegments j1 = totalSegments j1)
          in j1 \<lparr> job_progress := (100 * completedSegments j1) div totalSegments j1,
                  job_message := Some (''Translating with '' @ provider),
                  activeProvider := Some provider,
                  job_status := (if finished then Completed else Processing),
                  resultRef := (if finished then Some (video j) else resultRef j) \<rparr>)"

text \<open>
  Modelled from the spec: a worker crash or the job's overall timeout leaves a queued or
  processing job in error (section 7); terminal jobs are immutable.
\<close>

definition abort_job :: "Job \<Rightarrow> failure \<Rightarrow> Job" where
  "abort_job j f =
     (if job_status j = Queued \<or> job_status j = Processing
      then j \<lparr> job_status := Error, job_error := Some f \<rparr> else j)"

text \<open>Modelled from the spec: a transition is applied to the job with the given identity; an
  unknown identity changes nothing.\<close>

definition update_job :: "JobManager \<Rightarrow> nat \<Rightarrow> (Job \<Rightarrow> Job) \<Rightarrow> JobManager" where
  "update_job m jid f =
     (if jid < length (jobs m) then m \<lparr> jobs := (jobs m)[jid := f (jobs m ! jid)] \<rparr> else m)"

text \<open>Modelled from the spec: \<^verbatim>\<open>advance\<close> on the Job Manager.\<close>

definition advance :: "JobManager \<Rightarrow> nat \<Rightarrow> nat \<Rightarrow> string \<Rightarrow> round_outcome \<Rightarrow> JobManager" where
  "advance m jid segmentIndex provider outcome =
     update_job m jid (\<lambda>j. advance_job j segmentIndex provider outcome)"

text \<open>
  Modelled from the spec: the job id as the HTTP interface shows it (section 6 leaves its
  form open): \<^verbatim>\<open>job-\<close> and the identity in decimal.
\<close>

fun decimal :: "nat \<Rightarrow> string" where
  "decimal n =
     (if n < 10 then [''0123456789'' ! n]
      else decimal (n div 10) @ [''0123456789'' ! (n mod 10)])"

declare decimal.simps [simp del]

text \<open>Modelled from the spec: the job id on the wire.\<close>

definition job_name :: "nat \<Rightarrow> string" where
  "job_name jid = ''job-'' @ decimal jid"

text \<open>Modelled from the spec: the taxonomy tag of a failure (section 7).\<close>

fun failure_tag :: "failure \<Rightarrow> string" where
  "failure_tag QuotaExceeded = ''quotaExceeded''"
| "failure_tag InvalidCredential = ''invalidCredential''"
| "failure_tag Timeout = ''timeout''"
| "failure_tag MalformedResponse = ''malformedResponse''"
| "failure_tag UnknownFailure = ''unknown''"

text \<open>
  Modelled from the spec: \<^verbatim>\<open>GET job-status(jobId) -> {status, progress, message, error}\<close>,
  404 for an unknown id. The body has the shape the client declares
  (\<^verbatim>\<open>JobStatusResponse\<close>): \<^verbatim>\<open>video_id\<close> is the job's \<open>resultRef\<close> and
  \<^verbatim>\<open>translation_service\<close> its \<open>activeProvider\<close>.
\<close>

definition job_status_endpoint :: "JobManager \<Rightarrow> nat \<Rightarrow> nat + JobStatusResponse" where
  "job_status_endpoint m jid =
     (case getStatus m jid of
        Inl e \<Rightarrow> Inl 404
      | Inr j \<Rightarrow> Inr \<lparr> job_id = job_name (identity j), status = job_status j,
                     progress = int (job_progress j), message = job_message j,
                     video_id = resultRef j,
                     error_text = map_option failure_tag (job_error j),
                     translation_service = activeProvider j \<rparr>)"

text \<open>
  Modelled from the spec: what happens to a Job Manager over time. Jobs are submitted,
  picked up by a worker, advanced segment by segment or aborted, in any interleaving
  (section 5: jobs run concurrently and independently), and callers poll
  \<^verbatim>\<open>getStatus\<close> at any moment; a poll changes nothing.
\<close>

datatype jm_event =
    Submit string string string "(real \<times> real \<times> string) list"
  | PickUp nat
  | Advance nat nat string round_outcome
  | Abort nat failure
  | Poll nat

text \<open>Modelled from the spec: the effect of one event on the Job Manager.\<close>

fun jm_step :: "JobManager \<Rightarrow> jm_event \<Rightarrow> JobManager" where
  "jm_step m (Submit vid src tgt raw) =
     (case submit m vid src tgt raw of Inl e \<Rightarrow> m | Inr (jid, m') \<Rightarrow> m')"
| "jm_step m (PickUp jid) = update_job m jid pickUp"
| "jm_step m (Advance jid i p outcome) = advance m jid i p outcome"
| "jm_step m (Abort jid f) = update_job m jid (\<lambda>j. abort_job j f)"
| "jm_step m (Poll jid) = m"

text \<open>
  Modelled from the spec: the responses that the successive successful polls of job
  \<open>jid\<close> receive while the events \<open>es\<close> happen, in the order of the polls.
\<close>

fun polled :: "nat \<Rightarrow> JobManager \<Rightarrow> jm_event list \<Rightarrow> JobStatusResponse list" where
  "polled jid m [] = []"
| "polled jid m (Poll k # es) =
     (if k = jid
      then (case job_status_endpoint m jid of
              Inl c \<Rightarrow> polled jid m es
            | Inr r \<Rightarrow> r # polled jid m es)
      else polled jid m es)"
| "polled jid m (e # es) = polled jid (jm_step m e) es"

text \<open>
  Modelled from the spec: the Job Manager at start-up, with the providers the Key Vault
  lists.
\<close>

definition jm_init :: "string list \<Rightarrow> JobManager" where
  "jm_init providers = \<lparr> configured = providers, jobs = [] \<rparr>"

subsection \<open>Invariants of the Job Manager\<close>

text \<open>Modelled from the spec: \<^verbatim>\<open>progress = floor(100 * completedSegments / totalSegments)\<close> as
  an invariant of a job.\<close>

definition job_ok :: "Job \<Rightarrow> bool" where
  "job_ok j = (job_progress j = (100 * completedSegments j) div totalSegments j)"

text \<open>Modelled from the spec: all jobs of the manager satisfy the invariant.\<close>

definition jm_ok :: "JobManager \<Rightarrow> bool" where
  "jm_ok m = list_all job_ok (jobs m)"

text \<open>Modelled from the spec: the current progress of the job with a given identity, 0 while
  the job does not exist.\<close>

definition progress_of :: "JobManager \<Rightarrow> nat \<Rightarrow> nat" where
  "progress_of m jid = (if jid < length (jobs m) then job_progress (jobs m ! jid) else 0)"

lemma completed_le_total: "completedSegments j \<le> totalSegments j"
  by (simp add: completedSegments_def totalSegments_def)

lemma filter_update_mono:
  "P y \<Longrightarrow> length (filter P xs) \<le> length (filter P (xs[i := y]))"
proof (induction xs arbitrary: i)
  case Nil
  then show ?case by simp
next
  case (Cons x xs)
  then show ?case by (cases i) (auto intro: le_SucI)
qed

lemma job_ok_le_100: "job_ok j \<Longrightarrow> job_progress j \<le> 100"
proof -
  assume ok: "job_ok j"
  have "(100 * completedSegments j) div totalSegments j
          \<le> (100 * totalSegments j) div totalSegments j"
    by (rule div_le_mono) (simp add: completed_le_total)
  also have "\<dots> \<le> 100" by simp
  finally show ?thesis using ok by (simp add: job_ok_def)
qed

lemma pickUp_ok: "job_ok j \<Longrightarrow> job_ok (pickUp j) \<and> job_progress (pickUp j) = job_progress j"
  by (simp add: pickUp_def job_ok_def completedSegments_def totalSegments_def)

lemma abort_ok:
  "job_ok j \<Longrightarrow> job_ok (abort_job j f) \<and> job_progress (abort_job j f) = job_progress j"
  by (simp add: abort_job_def job_ok_def completedSegments_def totalSegments_def)

lemma advance_ok:
  assumes "job_ok j"
  shows "job_ok (advance_job j i p outcome) \<and>
         job_progress j \<le> job_progress (advance_job j i p outcome)"
proof (cases "job_status j \<noteq> Processing \<or> totalSegments j \<le> i")
  case True
  with assms show ?thesis by (simp add: advance_job_def)
next
  case False
  show ?thesis
  proof (cases outcome)
    case (Exhausted f)
    with False assms show ?thesis
      by (simp add: advance_job_def job_ok_def completedSegments_def totalSegments_def)
  next
    case (Translated t)
    let ?segs = "(job_segments j)[i := (job_segments j ! i) \<lparr> translatedText := Some t \<rparr>]"
    have mono: "length (filter (\<lambda>sg. translatedText sg \<noteq> None) (job_segments j))
                  \<le> length (filter (\<lambda>sg. translatedText sg \<noteq> None) ?segs)"
      by (rule filter_update_mono) simp
    then have "(100 * length (filter (\<lambda>sg. translatedText sg \<noteq> None) (job_segments j)))
                 div length (job_segments j)
               \<le> (100 * length (filter (\<lambda>sg. translatedText sg \<noteq> None) ?segs))
                 div length (job_segments j)"
      by (intro div_le_mono) simp
    with False Translated assms show ?thesis
      by (simp add: advance_job_def job_ok_def completedSegments_def totalSegments_def Let_def)
  qed
qed

lemma new_job_completed: "completedSegments (new_job jid vid src tgt raw) = 0"
proof -
  have "filter (\<lambda>sg. translatedText sg \<noteq> None)
          (map (\<lambda>(st, du, tx). \<lparr> seg_start = st, seg_duration = du,
                    originalText = tx, translatedText = None \<rparr>) raw) = []"
    by (induction raw) auto
  then show ?thesis
    by (simp add: new_job_def completedSegments_def)
qed

lemma new_job_ok: "job_ok (new_job jid vid src tgt raw)"
  by (simp add: job_ok_def new_job_completed) (simp add: new_job_def)

lemma new_job_progress: "job_progress (new_job jid vid src tgt raw) = 0"
  by (simp add: new_job_def)

lemma update_job_ok:
  assumes f: "\<And>j. job_ok j \<Longrightarrow> job_ok (f j) \<and> job_progress j \<le> job_progress (f j)"
    and ok: "jm_ok m"
  shows "jm_ok (update_job m k f) \<and> progress_of m jid \<le> progress_of (update_job m k f) jid"
proof (cases "k < length (jobs m)")
  case False
  with ok show ?thesis by (simp add: update_job_def)
next
  case True
  from ok have all: "\<And>n. n < length (jobs m) \<Longrightarrow> job_ok (jobs m ! n)"
    by (simp add: jm_ok_def list_all_length)
  have "job_ok ((jobs m)[k := f (jobs m ! k)] ! n)" if "n < length (jobs m)" for n
    using that all [of n] f [of "jobs m ! k"] all [of k] True
    by (cases "n = k") simp_all
  then have 1: "jm_ok (update_job m k f)"
    using True by (simp add: update_job_def jm_ok_def list_all_length)
  have 2: "progress_of m jid \<le> progress_of (update_job m k f) jid"
    using True f [of "jobs m ! k"] all [of k]
    by (cases "jid = k") (simp_all add: update_job_def progress_of_def)
  from 1 2 show ?thesis by simp
qed

lemma submit_ok:
  assumes "jm_ok m" and "submit m vid src tgt raw = Inr (k, m')"
  shows "jm_ok m' \<and> progress_of m jid \<le> progress_of m' jid"
proof -
  from assms(2) have m': "m' = m \<lparr> jobs := jobs m @ [new_job (length (jobs m)) vid src tgt raw] \<rparr>"
    by (auto simp: submit_def Let_def split: if_splits)
  with assms(1) have 1: "jm_ok m'" by (simp add: jm_ok_def new_job_ok)
  have 2: "progress_of m jid \<le> progress_of m' jid"
    by (simp add: m' progress_of_def nth_append)
  from 1 2 show ?thesis by simp
qed

lemma jm_step_ok:
  assumes "jm_ok m"
  shows "jm_ok (jm_step m e) \<and> progress_of m jid \<le> progress_of (jm_step m e) jid"
proof (cases e)
  case (Submit vid src tgt raw)
  show ?thesis
  proof (cases "submit m vid src tgt raw")
    case (Inl err)
    with Submit assms show ?thesis by simp
  next
    case (Inr res)
    obtain k m' where res: "res = (k, m')" by (cases res)
    with Inr submit_ok [OF assms, of vid src tgt raw k m' jid] Submit show ?thesis by simp
  qed
next
  case (PickUp k)
  have "\<And>j. job_ok j \<Longrightarrow> job_ok (pickUp j) \<and> job_progress j \<le> job_progress (pickUp j)"
    using pickUp_ok by simp
  from update_job_ok [of pickUp, OF this assms] PickUp show ?thesis by simp
next
  case (Advance k i p outcome)
  have "\<And>j. job_ok j \<Longrightarrow> job_ok (advance_job j i p outcome) \<and>
            job_progress j \<le> job_progress (advance_job j i p outcome)"
    using advance_ok by simp
  from update_job_ok [of "\<lambda>j. advance_job j i p outcome", OF this assms] Advance
  show ?thesis by (simp add: advance_def)
next
  case (Abort k f)
  have "\<And>j. job_ok j \<Longrightarrow> job_ok (abort_job j f) \<and>
            job_progress j \<le> job_progress (abort_job j f)"
    using abort_ok by simp
  from update_job_ok [of "\<lambda>j. abort_job j f", OF this assms] Abort show ?thesis by simp
next
  case (Poll k)
  with assms show ?thesis by simp
qed

lemma jm_init_ok: "jm_ok (jm_init providers)"
  by (simp add: jm_ok_def jm_init_def)

lemma endpoint_progress:
  "job_status_endpoint m jid = Inr r \<Longrightarrow> progress r = int (progress_of m jid)"
  by (auto simp: job_status_endpoint_def getStatus_def progress_of_def split: if_splits)

lemma progress_of_le_100: "jm_ok m \<Longrightarrow> progress_of m jid \<le> 100"
  by (simp add: progress_of_def jm_ok_def list_all_length job_ok_le_100)

text \<open>
  Every response polled from a well-formed manager carries a progress between the job's
  current progress and 100, and the responses are sorted by progress.
\<close>

lemma polled_sorted:
  "jm_ok m \<Longrightarrow>
     sorted (map progress (polled jid m es)) \<and>
     (\<forall>r \<in> set (polled jid m es). int (progress_of m jid) \<le> progress r \<and> progress r \<le> 100)"
proof (induction es arbitrary: m)
  case Nil
  then show ?case by simp
next
  case (Cons e es)
  from jm_step_ok [OF Cons.prems, of e jid]
  have ok': "jm_ok (jm_step m e)" and le: "progress_of m jid \<le> progress_of (jm_step m e) jid"
    by simp_all
  note IH = Cons.IH [OF ok']
  show ?case
  proof (cases "\<exists>k. e = Poll k")
    case False
    then have "polled jid m (e # es) = polled jid (jm_step m e) es"
      by (cases e) simp_all
    with IH le show ?thesis by fastforce
  next
    case True
    then obtain k where e: "e = Poll k" by blast
    with IH have IH': "sorted (map progress (polled jid m es)) \<and>
        (\<forall>r \<in> set (polled jid m es). int (progress_of m jid) \<le> progress r \<and> progress r \<le> 100)"
      by simp
    show ?thesis
    proof (cases "k = jid")
      case False
      with e IH' show ?thesis by simp
    next
      case True
      show ?thesis
      proof (cases "job_status_endpoint m jid")
        case (Inl c)
        with e True IH' show ?thesis by simp
      next
        case (Inr r)
        from endpoint_progress [OF Inr] have pr: "progress r = int (progress_of m jid)" .
        from progress_of_le_100 [OF Cons.prems, of jid] pr have "progress r \<le> 100" by simp
        with e True Inr IH' pr show ?thesis by simp
      qed
    qed
  qed
qed

section \<open>The Provider Router\<close>

text \<open>
  Modelled from the spec: the Provider Router and the Translation Worker of the backend
  are not among the sources. The model follows sections 3, 4.2 and 4.3 of the
  specification. A candidate is a provider, a model and the credential used; the
  availability cache is the list of the candidates marked blocked.
\<close>

text \<open>Modelled from the spec: Credential (section 3); the secret is an opaque handle.\<close>

record Credential =
  cred_provider :: string
  secret :: string
  paid_tier :: bool

text \<open>Modelled from the spec: ProviderCandidate (section 3); its availability is read from the
  cache during the round.\<close>

record ProviderCandidate =
  provider :: string
  model :: string
  credential :: string

text \<open>Modelled from the spec: the outcome of one TranslationAttempt (section 3).\<close>

datatype attempt = Succeeded string | Failed failure

text \<open>
  Modelled from the spec, step 1 of section 4.2: the candidate list is the configured
  providers in the static priority order (a list of provider and model); a provider
  with no Credential contributes nothing, and a provider with several Credentials
  contributes one candidate for each, at adjacent priority.
\<close>

definition candidates :: "(string \<times> string) list \<Rightarrow> Credential list \<Rightarrow> ProviderCandidate list" where
  "candidates priority creds =
     concat (map (\<lambda>(p, mdl).
               map (\<lambda>c. \<lparr> provider = p, model = mdl, credential = secret c \<rparr>)
                   (filter (\<lambda>c. cred_provider c = p) creds))
             priority)"

text \<open>
  Modelled from the spec, steps 2 to 6 of section 4.2: one round for one segment. The
  Translation Worker is the parameter \<open>worker\<close> (one provider call, classified). A
  blocked candidate is skipped without a call; the others are attempted in list order;
  the first success ends the round; \<^verbatim>\<open>quotaExceeded\<close> marks the candidate blocked at
  once, the other failures do not; when the list is exhausted the round fails with the
  last failure. The result is the verdict, the calls made, in order, and the cache.
\<close>

text \<open>Modelled from the spec: the result of a round.\<close>

record round_result =
  verdict :: "failure option + (ProviderCandidate \<times> string)"
  attempted :: "ProviderCandidate list"
  cache :: "ProviderCandidate list"

text \<open>Modelled from the spec: the iteration over the candidates; \<open>lastf\<close> is the last failure
  so far.\<close>

fun route ::
  "(ProviderCandidate \<Rightarrow> attempt) \<Rightarrow> ProviderCandidate list \<Rightarrow> failure option \<Rightarrow>
     ProviderCandidate list \<Rightarrow> round_result" where
  "route worker blocked lastf [] =
     \<lparr> verdict = Inl lastf, attempted = [], cache = blocked \<rparr>"
| "route worker blocked lastf (c # cs) =
     (if c \<in> set blocked then route worker blocked lastf cs
      else case worker c of
        Succeeded t \<Rightarrow> \<lparr> verdict = Inr (c, t), attempted = [c], cache = blocked \<rparr>
      | Failed f \<Rightarrow>
          let r = route worker (if f = QuotaExceeded then c # blocked else blocked)
                    (Some f) cs
          in r \<lparr> attempted := c # attempted r \<rparr>)"

text \<open>Modelled from the spec: one round for one segment, over the candidate list built from
  the priority order and the Credentials.\<close>

definition translate_segment ::
  "(ProviderCandidate \<Rightarrow> attempt) \<Rightarrow> ProviderCandidate list \<Rightarrow>
     (string \<times> string) list \<Rightarrow> Credential list \<Rightarrow> round_result" where
  "translate_segment worker blocked priority creds =
     route worker blocked None (candidates priority creds)"

subsection \<open>Facts about a round\<close>

lemma route_subseq: "subseq (attempted (route worker blocked lastf cs)) cs"
proof (induction cs arbitrary: blocked lastf)
  case Nil
  then show ?case by simp
next
  case (Cons c cs)
  show ?case
  proof (cases "c \<in> set blocked")
    case True
    with Cons.IH [of blocked lastf] show ?thesis by (auto intro: list_emb_Cons)
  next
    case False
    show ?thesis
    proof (cases "worker c")
      case (Succeeded t)
      with False show ?thesis by simp
    next
      case (Failed f)
      with False Cons.IH [of "if f = QuotaExceeded then c # blocked else blocked" "Some f"]
      show ?thesis by (simp add: Let_def)
    qed
  qed
qed

lemma route_butlast_failed:
  "c \<in> set (butlast (attempted (route worker blocked lastf cs))) \<Longrightarrow> \<exists>f. worker c = Failed f"
proof (induction cs arbitrary: blocked lastf)
  case Nil
  then show ?case by simp
next
  case (Cons d cs)
  show ?case
  proof (cases "d \<in> set blocked")
    case True
    with Cons show ?thesis by simp
  next
    case False
    show ?thesis
    proof (cases "worker d")
      case (Succeeded t)
      with False Cons.prems show ?thesis by simp
    next
      case (Failed f)
      let ?r = "route worker (if f = QuotaExceeded then d # blocked else blocked) (Some f) cs"
      from False Failed Cons.prems have "c \<in> set (butlast (d # attempted ?r))"
        by (simp add: Let_def)
      then have "c = d \<or> c \<in> set (butlast (attempted ?r))"
        by (auto split: if_splits)
      with Failed Cons.IH show ?thesis by blast
    qed
  qed
qed

lemma route_success_last:
  "verdict (route worker blocked lastf cs) = Inr (c, t) \<Longrightarrow>
     attempted (route worker blocked lastf cs) \<noteq> [] \<and>
     last (attempted (route worker blocked lastf cs)) = c \<and> worker c = Succeeded t"
proof (induction cs arbitrary: blocked lastf)
  case Nil
  then show ?case by simp
next
  case (Cons d cs)
  show ?case
  proof (cases "d \<in> set blocked")
    case True
    with Cons show ?thesis by simp
  next
    case False
    show ?thesis
    proof (cases "worker d")
      case (Succeeded u)
      with False Cons.prems show ?thesis by auto
    next
      case (Failed f)
      let ?r = "route worker (if f = QuotaExceeded then d # blocked else blocked) (Some f) cs"
      from False Failed Cons.prems have "verdict ?r = Inr (c, t)" by (simp add: Let_def)
      from Cons.IH [OF this] False Failed show ?thesis by (simp add: Let_def)
    qed
  qed
qed

section \<open>Submitting a video (\<^verbatim>\<open>MainApp\<close>, \<^verbatim>\<open>handleUrlSubmit\<close>)\<close>

text \<open>
  \<^verbatim>\<open>interface VideoProcessRequest\<close>, \<^verbatim>\<open>VideoProcessResponse\<close> and \<^verbatim>\<open>VideoCheckResponse\<close>
  of services/api.ts. The fields of the two responses carry the prefixes \<open>resp_\<close> and
  \<open>check_\<close>; an optional field that is left out is \<open>None\<close>.
\<close>

record VideoProcessRequest =
  youtube_url :: string
  source_language :: string
  target_language :: string
  gemini_api_key :: string
  force_retranslate :: "bool option"

record VideoProcessResponse =
  resp_job_id :: string
  resp_status :: string
  resp_message :: string

record VideoCheckResponse =
  check_exists :: bool
  check_translation_id :: "string option"
  check_video_id :: "string option"

text \<open>
  What the \<^verbatim>\<open>catch\<close> branch reads of a rejected request:
  \<^verbatim>\<open>error.response?.status\<close> and \<^verbatim>\<open>error.response?.data?.detail\<close>.
\<close>

record axios_error =
  err_status :: "nat option"
  err_detail :: "string option"

text \<open>
  The world around the handler: what \<^verbatim>\<open>videoApi.check\<close> and \<^verbatim>\<open>videoApi.process\<close>
  settle with (a rejection is \<open>Inl\<close>), and the user's answer to \<^verbatim>\<open>window.confirm\<close>.
\<close>

record environment =
  api_check :: "string \<Rightarrow> string \<Rightarrow> string \<Rightarrow> axios_error + VideoCheckResponse"
  api_process :: "VideoProcessRequest \<Rightarrow> axios_error + VideoProcessResponse"
  window_confirm :: bool

text \<open>The state of \<^verbatim>\<open>MainApp\<close> that the handler reads or writes.\<close>

record MainApp =
  youtubeUrl :: string
  videoId :: "string option"
  sourceLanguage :: string
  targetLanguage :: string
  geminiApiKey :: "string option"
  jobId :: "string option"
  processing :: bool

text \<open>What the handler does to the outside, in order.\<close>

datatype action =
    Alert string
  | CallCheck string string string
  | Confirm
  | CallProcess VideoProcessRequest
  | LoadSubtitles string string string

subsection \<open>\<^verbatim>\<open>extractVideoId\<close>\<close>

text \<open>
  The two regular expressions of \<^verbatim>\<open>extractVideoId\<close>, matched as \<^verbatim>\<open>String.prototype.match\<close>
  does for a pattern without flags: the leftmost start position at which the pattern
  matches, the alternatives in order, \<^verbatim>\<open>.*\<close> greedy with backtracking. A string is
  the UTF-8 encoding of the JavaScript string here. The literals and the id characters of
  the patterns are ASCII, and an ASCII byte never occurs inside the encoding of another
  character, so matching them on bytes is matching them on characters. The four line
  terminators that \<^verbatim>\<open>.\<close> does not match are line feed, carriage return, and the line and
  paragraph separators U+2028 and U+2029, whose encodings are the bytes E2 80 A8 and
  E2 80 A9.
\<close>

definition line_terminator_here :: "string \<Rightarrow> bool" where
  "line_terminator_here s =
     (take 1 s = [CHR 0x0A] \<or> take 1 s = [CHR 0x0D] \<or>
      take 3 s = [char_of (0xE2 :: nat), char_of (0x80 :: nat), char_of (0xA8 :: nat)] \<or>
      take 3 s = [char_of (0xE2 :: nat), char_of (0x80 :: nat), char_of (0xA9 :: nat)])"

definition idchar :: "char \<Rightarrow> bool" where
  "idchar c = (let n = of_char c :: nat
               in (97 \<le> n \<and> n \<le> 122) \<or> (65 \<le> n \<and> n \<le> 90) \<or> (48 \<le> n \<and> n \<le> 57)
                  \<or> c = CHR ''_'' \<or> c = CHR ''-'')"

text \<open>\<^verbatim>\<open>([a-zA-Z0-9_-]{11})\<close> at the start of \<open>s\<close>: the captured group.\<close>

definition id11 :: "string \<Rightarrow> string option" where
  "id11 s = (if 11 \<le> length s \<and> list_all idchar (take 11 s) then Some (take 11 s) else None)"

text \<open>The literal \<open>p\<close> at the start of \<open>s\<close>: what follows it.\<close>

definition after :: "string \<Rightarrow> string \<Rightarrow> string option" where
  "after p s = (if take (length p) s = p then Some (drop (length p) s) else None)"

definition literal_then_id :: "string \<Rightarrow> string \<Rightarrow> string option" where
  "literal_then_id p s = (case after p s of None \<Rightarrow> None | Some r \<Rightarrow> id11 r)"

text \<open>The first pattern, anchored at the start of \<open>s\<close>.\<close>

definition pattern1_here :: "string \<Rightarrow> string option" where
  "pattern1_here s =
     (case literal_then_id ''youtube.com/watch?v='' s of
        Some v \<Rightarrow> Some v
      | None \<Rightarrow>
          (case literal_then_id ''youtu.be/'' s of
             Some v \<Rightarrow> Some v
           | None \<Rightarrow> literal_then_id ''youtube.com/embed/'' s))"

text \<open>
  \<^verbatim>\<open>.*v=([a-zA-Z0-9_-]{11})\<close> at the start of \<open>s\<close>: the longest run of characters other
  than line terminators after which \<^verbatim>\<open>v=\<close> and eleven id characters follow. The run
  ends where a line terminator starts.
\<close>

fun dotstar_v :: "string \<Rightarrow> string option" where
  "dotstar_v [] = literal_then_id ''v='' []"
| "dotstar_v (c # cs) =
     (if line_terminator_here (c # cs) then literal_then_id ''v='' (c # cs)
      else (case dotstar_v cs of
              Some v \<Rightarrow> Some v
            | None \<Rightarrow> literal_then_id ''v='' (c # cs)))"

text \<open>The second pattern, anchored at the start of \<open>s\<close>.\<close>

definition pattern2_here :: "string \<Rightarrow> string option" where
  "pattern2_here s = (case after ''youtube.com/watch?'' s of None \<Rightarrow> None | Some r \<Rightarrow> dotstar_v r)"

text \<open>The leftmost position at which an anchored pattern matches.\<close>

fun search :: "(string \<Rightarrow> string option) \<Rightarrow> string \<Rightarrow> string option" where
  "search pat [] = pat []"
| "search pat (c # cs) = (case pat (c # cs) of Some v \<Rightarrow> Some v | None \<Rightarrow> search pat cs)"

definition extractVideoId :: "string \<Rightarrow> string option" where
  "extractVideoId u =
     (case search pattern1_here u of
        Some v \<Rightarrow> Some v
      | None \<Rightarrow> search pattern2_here u)"

text \<open>
  The function on some URLs: the greedy second pattern (its last \<^verbatim>\<open>v=\<close> wins), an id
  that is too short, and the second pattern stopped by a line separator U+2028 or a
  paragraph separator U+2029 (an id behind the separator is not found, and an id before
  it is the one returned).
\<close>

lemma extractVideoId_greedy:
  "extractVideoId ''youtube.com/watch?list=x&v=AAAAAAAAAAA&v=BBBBBBBBBBB''
     = Some ''BBBBBBBBBBB''"
  by code_simp

lemma extractVideoId_short_id:
  "extractVideoId ''https://www.youtube.com/embed/dQw4w9WgXc'' = None"
  by code_simp

lemma extractVideoId_line_separator:
  "extractVideoId (''youtube.com/watch?x''
       @ [char_of (0xE2 :: nat), char_of (0x80 :: nat), char_of (0xA8 :: nat)]
       @ ''v=dQw4w9WgXcQ'') = None"
  by code_simp

lemma extractVideoId_before_line_separator:
  "extractVideoId (''youtube.com/watch?a&v=AAAAAAAAAAA''
       @ [char_of (0xE2 :: nat), char_of (0x80 :: nat), char_of (0xA8 :: nat)]
       @ ''&v=BBBBBBBBBBB'') = Some ''AAAAAAAAAAA''"
  by code_simp

lemma extractVideoId_before_paragraph_separator:
  "extractVideoId (''youtube.com/watch?a&v=AAAAAAAAAAA''
       @ [char_of (0xE2 :: nat), char_of (0x80 :: nat), char_of (0xA9 :: nat)]
       @ ''&v=BBBBBBBBBBB'') = Some ''AAAAAAAAAAA''"
  by code_simp

subsection \<open>\<^verbatim>\<open>handleUrlSubmit\<close>\<close>

definition msg_no_key :: string where
  "msg_no_key = ''Por favor, configure sua chave de API do Gemini primeiro.''"

text \<open>The a of \<^verbatim>\<open>invalida\<close> and the i of \<^verbatim>\<open>video\<close> carry an acute accent in the source.\<close>

definition msg_invalid_url :: string where
  "msg_invalid_url = ''URL do YouTube inv'' @ [char_of (0xC3 :: nat), char_of (0xA1 :: nat)] @ ''lida.''"

definition msg_process_failed :: string where
  "msg_process_failed = ''Erro ao processar v'' @ [char_of (0xC3 :: nat), char_of (0xAD :: nat)] @ ''deo''"

text \<open>\<^verbatim>\<open>error.response?.data?.detail || 'Erro ao processar video'\<close>\<close>

definition errorMessage :: "axios_error \<Rightarrow> string" where
  "errorMessage e = (if truthy (err_detail e) then string_of (err_detail e) else msg_process_failed)"

text \<open>The \<^verbatim>\<open>catch\<close> branch: alert the message and \<^verbatim>\<open>setProcessing(false)\<close>.\<close>

definition on_error :: "MainApp \<Rightarrow> action list \<Rightarrow> axios_error \<Rightarrow> MainApp \<times> action list" where
  "on_error st acts e = (st \<lparr> processing := False \<rparr>, acts @ [Alert (errorMessage e)])"

text \<open>
  \<^verbatim>\<open>handleUrlSubmit(url)\<close>: the new state of \<^verbatim>\<open>MainApp\<close> and the actions performed, in
  order. Each early \<^verbatim>\<open>return\<close> and the \<^verbatim>\<open>catch\<close> branch is a branch of the model.
\<close>

definition handleUrlSubmit :: "environment \<Rightarrow> MainApp \<Rightarrow> string \<Rightarrow> MainApp \<times> action list" where
  "handleUrlSubmit env st u =
     (case geminiApiKey st of
        None \<Rightarrow> (st, [Alert msg_no_key])
      | Some k \<Rightarrow>
         (if k = [] then (st, [Alert msg_no_key])
          else
           (let st1 = st \<lparr> youtubeUrl := u \<rparr> in
            (case extractVideoId u of
               None \<Rightarrow> (st1, [Alert msg_invalid_url])
             | Some extractedId \<Rightarrow>
                (let st2 = st1 \<lparr> videoId := Some extractedId, processing := True \<rparr>;
                     acts = [CallCheck u (sourceLanguage st) (targetLanguage st)]
                 in (case api_check env u (sourceLanguage st) (targetLanguage st) of
                       Inl e \<Rightarrow> on_error st2 acts e
                     | Inr chk \<Rightarrow>
                        (if check_exists chk \<and> truthy (check_video_id chk) then
                          (if window_confirm env then
                            (let req = \<lparr> youtube_url = u,
                                         source_language = sourceLanguage st,
                                         target_language = targetLanguage st,
                                         gemini_api_key = k,
                                         force_retranslate = Some True \<rparr>
                             in (case api_process env req of
                                   Inl e \<Rightarrow> on_error st2 (acts @ [Confirm, CallProcess req]) e
                                 | Inr response \<Rightarrow>
                                     (st2 \<lparr> jobId := Some (resp_job_id response) \<rparr>,
                                      acts @ [Confirm, CallProcess req])))
                           else
                            (st2 \<lparr> processing := False \<rparr>,
                             acts @ [Confirm, LoadSubtitles (string_of (check_video_id chk))
                                                (sourceLanguage st) (targetLanguage st)]))
                         else
                          (let req = \<lparr> youtube_url = u,
                                       source_language = sourceLanguage st,
                                       target_language = targetLanguage st,
                                       gemini_api_key = k,
                                       force_retranslate = None \<rparr>
                           in (case api_process env req of
                                 Inl e \<Rightarrow> on_error st2 (acts @ [CallProcess req]) e
                               | Inr response \<Rightarrow>
                                   (st2 \<lparr> jobId := Some (resp_job_id response) \<rparr>,
                                    acts @ [CallProcess req]))))))))))"

section \<open>The submit endpoint\<close>

text \<open>
  Modelled from the spec: the endpoint of the backend is not among the sources. Section 6:
  \<^verbatim>\<open>POST submit-translation-job(videoId, sourceLang, targetLang) -> {jobId}\<close> answers 202
  on enqueue, 409 if an identical in-flight Job already exists for the same video and
  language pair, 400 if no provider is configured. A Job is in flight while it is
  queued or processing. \<^verbatim>\<open>submit\<close> validates the providers first (section 4.1), so 400
  takes precedence over 409. The captions of the video (\<open>raw\<close>) come from the caption
  source, a collaborator.
\<close>

text \<open>Modelled from the spec: a Job is in flight while it is not terminal.\<close>

definition in_flight :: "Job \<Rightarrow> bool" where
  "in_flight j = (job_status j = Queued \<or> job_status j = Processing)"

text \<open>Modelled from the spec: an identical in-flight Job exists for the video and language
  pair.\<close>

definition identical_in_flight :: "JobManager \<Rightarrow> string \<Rightarrow> string \<Rightarrow> string \<Rightarrow> bool" where
  "identical_in_flight m vid src tgt =
     list_ex (\<lambda>j. in_flight j \<and> video j = vid \<and> sourceLang j = src \<and> targetLang j = tgt)
       (jobs m)"

text \<open>Modelled from the spec: the reply of the endpoint, its status code, the job id when a
  Job was enqueued, and the detail of an error.\<close>

record endpoint_reply =
  code :: nat
  accepted :: "nat option"
  detail :: "string option"

text \<open>Modelled from the spec: the endpoint \<^verbatim>\<open>POST submit-translation-job\<close>.\<close>

definition submit_translation_job ::
  "JobManager \<Rightarrow> string \<Rightarrow> string \<Rightarrow> string \<Rightarrow> (real \<times> real \<times> string) list
     \<Rightarrow> endpoint_reply \<times> JobManager" where
  "submit_translation_job m vid src tgt raw =
     (if configured m = []
      then (\<lparr> code = 400, accepted = None, detail = Some ''NoProviderConfigured'' \<rparr>, m)
      else if identical_in_flight m vid src tgt
      then (\<lparr> code = 409, accepted = None, detail = Some ''JobAlreadyInFlight'' \<rparr>, m)
      else (case submit m vid src tgt raw of
              Inl e \<Rightarrow> (\<lparr> code = 400, accepted = None,
                          detail = Some ''NoProviderConfigured'' \<rparr>, m)
            | Inr (jid, m') \<Rightarrow> (\<lparr> code = 202, accepted = Some jid, detail = None \<rparr>, m')))"

text \<open>
  \<^verbatim>\<open>videoApi.process\<close> of services/api.ts on a reply of the endpoint: axios resolves a
  reply whose status is 2xx and the function returns its body, \<^verbatim>\<open>response.data\<close>; any
  other status rejects with the reply as \<^verbatim>\<open>error.response\<close>. The body of an accepted
  reply carries the job id.
\<close>

definition videoApi_process :: "endpoint_reply \<Rightarrow> axios_error + VideoProcessResponse" where
  "videoApi_process reply =
     (if 200 \<le> code reply \<and> code reply < 300
      then Inr \<lparr> resp_job_id = (case accepted reply of None \<Rightarrow> [] | Some jid \<Rightarrow> job_name jid),
                 resp_status = ''queued'', resp_message = [] \<rparr>
      else Inl \<lparr> err_status = Some (code reply), err_detail = detail reply \<rparr>)"

section \<open>Properties of the polling hook\<close>

text \<open>
  Claim C1. Whatever happened before (\<open>es1\<close>), when an awaited \<^verbatim>\<open>getJobStatus\<close> request of
  the hook resolves with status \<^verbatim>\<open>completed\<close> or \<^verbatim>\<open>error\<close>, the hook stores that response,
  sets \<open>isPolling\<close> to false and clears the interval; and whatever happens afterwards
  (\<open>es2\<close>: further ticks, settlements of requests already in flight, the cleanup), no
  further \<^verbatim>\<open>getJobStatus\<close> request is issued, the timer stays cleared and \<open>isPolling\<close>
  stays false.
\<close>

theorem terminal_poll_stops_polling:
  assumes "s = hook_after job enabled es1"
    and "0 < inflight s"
    and "status r = Completed \<or> status r = Error"
    and "s' = poll_step j s (Resolve r)"
  shows "jobStatus s' = Some r \<and> \<not> isPolling s' \<and> \<not> timerActive s' \<and>
         calls (poll_run j s' es2) = calls s' \<and>
         \<not> isPolling (poll_run j s' es2) \<and> \<not> timerActive (poll_run j s' es2)"
proof -
  have "hook_inv s" using assms(1) by (simp add: hook_inv_after)
  with assms(2) have ref: "intervalRef s" by (simp add: hook_inv_def)
  from assms(2,3,4) ref
  have a: "jobStatus s' = Some r" and b: "\<not> isPolling s'" and c: "\<not> timerActive s'"
    by (auto simp: clearIntervalRef_def Let_def)
  from stopped_run [OF c b, of j es2] a b c show ?thesis by simp
qed

theorem terminal_poll_stops_polling_witness:
  "0 < inflight (hook_after (Some ''job-1'') True [Tick]) \<and>
   calls (poll_run ''job-1''
            (poll_step ''job-1'' (hook_after (Some ''job-1'') True [Tick])
               (Resolve \<lparr> job_id = ''job-1'', status = Completed, progress = 100,
                          message = None, video_id = Some ''v'', error_text = None,
                          translation_service = None \<rparr>))
            [Tick, Resolve \<lparr> job_id = ''job-1'', status = Processing, progress = 50,
                          message = None, video_id = None, error_text = None,
                          translation_service = None \<rparr>, Tick])
     = [''job-1'', ''job-1'']"
proof -
  have h: "0 < inflight (hook_after (Some ''job-1'') True [Tick])"
    by (simp add: hook_after_def useJobPolling_def hook_init_def)
  show ?thesis
    using h terminal_poll_stops_polling
      [OF refl h _ refl, of "\<lparr> job_id = ''job-1'', status = Completed, progress = 100,
          message = None, video_id = Some ''v'', error_text = None,
          translation_service = None \<rparr>" "''job-1''"]
    by (simp add: hook_after_def useJobPolling_def hook_init_def clearIntervalRef_def)
qed

text \<open>
  Claim C9, as stated, says that after a failed \<^verbatim>\<open>getJobStatus\<close> call the last status
  observed before the failure remains the final observation. That fails when another
  request is in flight at the failure: here the first poll resolved with progress 40,
  two ticks issued two requests, the first of them rejects (polling stops), and the
  second still resolves with progress 70, which \<^verbatim>\<open>setJobStatus\<close> stores. No call is
  issued after the failure.
\<close>

theorem failed_poll_last_status_counterexample:
  "0 < inflight (hook_after (Some ''job-1'') True
         [Resolve \<lparr> job_id = ''job-1'', status = Processing, progress = 40,
                    message = None, video_id = None, error_text = None,
                    translation_service = None \<rparr>, Tick, Tick]) \<and>
   map_option progress (jobStatus (hook_after (Some ''job-1'') True
         [Resolve \<lparr> job_id = ''job-1'', status = Processing, progress = 40,
                    message = None, video_id = None, error_text = None,
                    translation_service = None \<rparr>, Tick, Tick])) = Some 40 \<and>
   map_option progress (jobStatus (poll_run ''job-1''
      (poll_step ''job-1'' (hook_after (Some ''job-1'') True
         [Resolve \<lparr> job_id = ''job-1'', status = Processing, progress = 40,
                    message = None, video_id = None, error_text = None,
                    translation_service = None \<rparr>, Tick, Tick]) Reject)
      [Resolve \<lparr> job_id = ''job-1'', status = Processing, progress = 70,
                 message = None, video_id = None, error_text = None,
                 translation_service = None \<rparr>])) = Some 70 \<and>
   calls (poll_run ''job-1''
      (poll_step ''job-1'' (hook_after (Some ''job-1'') True
         [Resolve \<lparr> job_id = ''job-1'', status = Processing, progress = 40,
                    message = None, video_id = None, error_text = None,
                    translation_service = None \<rparr>, Tick, Tick]) Reject)
      [Resolve \<lparr> job_id = ''job-1'', status = Processing, progress = 70,
                 message = None, video_id = None, error_text = None,
                 translation_service = None \<rparr>])
     = calls (hook_after (Some ''job-1'') True
         [Resolve \<lparr> job_id = ''job-1'', status = Processing, progress = 40,
                    message = None, video_id = None, error_text = None,
                    translation_service = None \<rparr>, Tick, Tick])"
  by (simp add: hook_after_def useJobPolling_def hook_init_def clearIntervalRef_def)

text \<open>
  Claim C9, amended. Whatever happened before (\<open>es1\<close>), when an awaited \<^verbatim>\<open>getJobStatus\<close>
  request of the hook rejects, the \<^verbatim>\<open>catch\<close> branch leaves \<open>jobStatus\<close> as it was, sets
  \<open>isPolling\<close> to false and clears the interval; whatever happens afterwards (\<open>es2\<close>), no
  further request is issued (no retry), the timer stays cleared and \<open>isPolling\<close> stays
  false. When the failed request was the only one in flight, \<open>jobStatus\<close> keeps the
  value it had before the failure for ever: the last response that was observed,
  terminal or not.
\<close>

theorem failed_poll_stops_polling:
  assumes "s = hook_after job enabled es1"
    and "0 < inflight s"
    and "s' = poll_step j s Reject"
  shows "jobStatus s' = jobStatus s \<and> \<not> isPolling s' \<and> \<not> timerActive s' \<and>
         calls (poll_run j s' es2) = calls s' \<and>
         \<not> isPolling (poll_run j s' es2) \<and> \<not> timerActive (poll_run j s' es2) \<and>
         (inflight s = 1 \<longrightarrow> jobStatus (poll_run j s' es2) = jobStatus s)"
proof -
  have "hook_inv s" using assms(1) by (simp add: hook_inv_after)
  with assms(2) have ref: "intervalRef s" by (simp add: hook_inv_def)
  from assms(2,3) ref
  have a: "jobStatus s' = jobStatus s" and b: "\<not> isPolling s'" and c: "\<not> timerActive s'"
    and d: "inflight s' = inflight s - 1"
    by (auto simp: clearIntervalRef_def)
  have "jobStatus (poll_run j s' es2) = jobStatus s" if "inflight s = 1"
    using quiet_run [OF c, of j es2] a d that by simp
  with stopped_run [OF c b, of j es2] a b c show ?thesis by simp
qed

theorem failed_poll_stops_polling_witness:
  "0 < inflight (hook_after (Some ''job-1'') True
         [Resolve \<lparr> job_id = ''job-1'', status = Processing, progress = 40,
                    message = None, video_id = None, error_text = None,
                    translation_service = Some ''gemini'' \<rparr>, Tick]) \<and>
   (let s' = poll_step ''job-1'' (hook_after (Some ''job-1'') True
         [Resolve \<lparr> job_id = ''job-1'', status = Processing, progress = 40,
                    message = None, video_id = None, error_text = None,
                    translation_service = Some ''gemini'' \<rparr>, Tick]) Reject
    in calls (poll_run ''job-1'' s' [Tick, Tick, Cleanup]) = [''job-1'', ''job-1''] \<and>
       map_option status (jobStatus (poll_run ''job-1'' s' [Tick, Tick, Cleanup]))
         = Some Processing)"
proof -
  let ?es = "[Resolve \<lparr> job_id = ''job-1'', status = Processing, progress = 40,
                    message = None, video_id = None, error_text = None,
                    translation_service = Some ''gemini'' \<rparr>, Tick]"
  have h: "0 < inflight (hook_after (Some ''job-1'') True ?es)"
    by (simp add: hook_after_def useJobPolling_def hook_init_def)
  show ?thesis
    using h failed_poll_stops_polling [OF refl h refl, of "''job-1''" "[Tick, Tick, Cleanup]"]
    by (simp add: hook_after_def useJobPolling_def hook_init_def clearIntervalRef_def)
qed

section \<open>Properties of the subtitle overlay\<close>

text \<open>
  Claim C7. For every non-empty list of segments the overlay shows one original line and
  one translated line, and each line is the concatenation of the segments' texts in the
  order of the list, with the single space that \<^verbatim>\<open>join(' ')\<close> puts between neighbours:
  the line is exactly \<open>join '' '' (map original segments)\<close> (the same for
  \<open>translated\<close>), the text of the \<open>i\<close>-th segment stands in it at the offset given by the
  segments before it, and the length of the line is that of all texts plus the
  separators, so that no segment is dropped, repeated or moved. The lines depend on
  nothing but the list.
\<close>

theorem overlay_lines_in_segment_order:
  assumes "segments \<noteq> []"
  shows "\<exists>v. SubtitleOverlay segments fs = Some v \<and>
           subtitle_original v = join '' '' (map original segments) \<and>
           subtitle_translated v = join '' '' (map translated segments) \<and>
           (\<forall>i < length segments.
              take (length (original (segments ! i)))
                (drop (offset (map original segments) i) (subtitle_original v))
                = original (segments ! i) \<and>
              take (length (translated (segments ! i)))
                (drop (offset (map translated segments) i) (subtitle_translated v))
                = translated (segments ! i)) \<and>
           length (subtitle_original v) + 1
             = sum_list (map (\<lambda>s. length (original s) + 1) segments) \<and>
           length (subtitle_translated v) + 1
             = sum_list (map (\<lambda>s. length (translated s) + 1) segments)"
proof -
  let ?v = "\<lparr> data_fullscreen = fs,
              subtitle_original = join '' '' (map original segments),
              subtitle_translated = join '' '' (map translated segments) \<rparr>"
  have v: "SubtitleOverlay segments fs = Some ?v"
    using assms by (simp add: SubtitleOverlay_def)
  have pos: "take (length (original (segments ! i)))
                (drop (offset (map original segments) i) (subtitle_original ?v))
                = original (segments ! i) \<and>
             take (length (translated (segments ! i)))
                (drop (offset (map translated segments) i) (subtitle_translated ?v))
                = translated (segments ! i)" if "i < length segments" for i
    using that join_at_offset [of i "map original segments" "CHR '' ''"]
      join_at_offset [of i "map translated segments" "CHR '' ''"] by simp
  have len1: "length (subtitle_original ?v) + 1
      = sum_list (map (\<lambda>s. length (original s) + 1) segments)"
    using assms length_join [of "map original segments" "CHR '' ''"]
    by (simp add: comp_def)
  have len2: "length (subtitle_translated ?v) + 1
      = sum_list (map (\<lambda>s. length (translated s) + 1) segments)"
    using assms length_join [of "map translated segments" "CHR '' ''"]
    by (simp add: comp_def)
  from v pos len1 len2 show ?thesis by simp
qed

theorem overlay_lines_in_segment_order_witness:
  "SubtitleOverlay
     [\<lparr> start = 0, duration = 2, original = ''Hello'', translated = ''Ola'' \<rparr>,
      \<lparr> start = 2, duration = 3, original = ''big world'', translated = ''mundo grande'' \<rparr>]
     False
   = Some \<lparr> data_fullscreen = False, subtitle_original = ''Hello big world'',
             subtitle_translated = ''Ola mundo grande'' \<rparr>"
  using overlay_lines_in_segment_order
    [of "[\<lparr> start = 0, duration = 2, original = ''Hello'', translated = ''Ola'' \<rparr>,
          \<lparr> start = 2, duration = 3, original = ''big world'',
            translated = ''mundo grande'' \<rparr>]" False]
  by (auto simp: SubtitleOverlay_def)

text \<open>
  Claim C10. For the empty list of segments the overlay renders nothing (\<^verbatim>\<open>null\<close>), and
  nothing is the result for the empty list only: the two \<^verbatim>\<open>join\<close> calls are reached with
  a non-empty list, no element of an empty list is read and no empty pair of subtitle
  lines is rendered for it.
\<close>

theorem overlay_empty_renders_nothing:
  "SubtitleOverlay [] fs = None \<and> ((SubtitleOverlay segments fs = None) = (segments = []))"
  by (simp add: SubtitleOverlay_def)

section \<open>Properties of the usage statistics request\<close>

text \<open>
  Claim C8. \<^verbatim>\<open>usageApi.getStats(service?, days)\<close> issues one GET to
  \<^verbatim>\<open>/api/usage/stats\<close> whose parameters are \<^verbatim>\<open>days\<close>, 30 when the argument is left out,
  and \<^verbatim>\<open>service\<close>, present with the given value exactly when a (non-empty) service name
  is given and absent otherwise, and nothing else; when the request resolves, the result
  is the body of the response, the aggregated report, unchanged, and when it rejects the
  error is passed on.
\<close>

theorem getStats_request_and_result:
  "url (getStats_request sv days) = ''/api/usage/stats'' \<and>
   map_of (params (getStats_request sv days)) ''days''
     = Some (Num (case days of None \<Rightarrow> 30 | Some d \<Rightarrow> d)) \<and>
   map_of (params (getStats_request sv days)) ''service''
     = (if truthy sv then map_option Str sv else None) \<and>
   distinct (map fst (params (getStats_request sv days))) \<and>
   set (map fst (params (getStats_request sv days))) \<subseteq> {''days'', ''service''} \<and>
   (\<forall>r. api_get (getStats_request sv days) = Inr r \<longrightarrow>
        getStats api_get sv days = Inr (data r)) \<and>
   (\<forall>e. api_get (getStats_request sv days) = Inl e \<longrightarrow>
        getStats api_get sv days = Inl e)"
  by (cases sv) (auto simp: getStats_request_def getStats_def)

theorem getStats_request_and_result_witness:
  "getStats
     (\<lambda>req. if params req = [(''days'', Num 30)]
            then Inr \<lparr> http_status = 200,
                       data = \<lparr> service = None, total_tokens = 30, input_tokens = 10,
                                output_tokens = 20, requests = 2,
                                models = [\<lparr> m_model = ''gemini-pro'', m_tokens = 30,
                                           m_input_tokens = 10, m_output_tokens = 20,
                                           m_requests = 2 \<rparr>],
                                daily_usage = [\<lparr> d_date = ''2025-01-01'',
                                                d_total_tokens = 30, d_requests = 2 \<rparr>],
                                period_days = 30, services = None \<rparr> \<rparr>
            else Inl ''unexpected parameters'')
     None None
   = Inr \<lparr> service = None, total_tokens = 30, input_tokens = 10,
            output_tokens = 20, requests = 2,
            models = [\<lparr> m_model = ''gemini-pro'', m_tokens = 30,
                       m_input_tokens = 10, m_output_tokens = 20, m_requests = 2 \<rparr>],
            daily_usage = [\<lparr> d_date = ''2025-01-01'',
                            d_total_tokens = 30, d_requests = 2 \<rparr>],
            period_days = 30, services = None \<rparr>"
  using getStats_request_and_result
    [of None None "\<lambda>req. if params req = [(''days'', Num 30)]
            then Inr \<lparr> http_status = 200,
                       data = \<lparr> service = None, total_tokens = 30, input_tokens = 10,
                                output_tokens = 20, requests = 2,
                                models = [\<lparr> m_model = ''gemini-pro'', m_tokens = 30,
                                           m_input_tokens = 10, m_output_tokens = 20,
                                           m_requests = 2 \<rparr>],
                                daily_usage = [\<lparr> d_date = ''2025-01-01'',
                                                d_total_tokens = 30, d_requests = 2 \<rparr>],
                                period_days = 30, services = None \<rparr> \<rparr>
            else Inl ''unexpected parameters''"]
  by (simp add: getStats_request_def)

section \<open>Properties of the Job Manager and of the Provider Router\<close>

text \<open>
  Claim C2. For every job \<open>jid\<close> and every course of events of the Job Manager (jobs
  submitted, picked up, advanced in any segment order, aborted, and polls in between),
  the progress values that the successive \<^verbatim>\<open>getStatus\<close> polls of the job return are
  non-decreasing in the order of the polls, up to the terminal status and after it.
\<close>

theorem polled_progress_nondecreasing:
  "sorted (map progress (polled jid (jm_init providers) es))"
  using polled_sorted [OF jm_init_ok, of jid providers es] by simp

theorem polled_progress_nondecreasing_witness:
  "map progress (polled 0 (jm_init [''gemini''])
      [Submit ''dQw4w9WgXcQ'' ''en'' ''pt'' [(0, 2, ''one''), (2, 2, ''two''), (4, 2, ''three'')],
       Poll 0, PickUp 0,
       Advance 0 0 ''gemini'' (Translated ''um''), Poll 0,
       Advance 0 2 ''gemini'' (Translated ''tres''), Poll 0,
       Advance 0 1 ''gemini'' (Translated ''dois''), Poll 0])
   = [0, 33, 66, 100]"
  using polled_progress_nondecreasing [of 0 "[''gemini'']"
      "[Submit ''dQw4w9WgXcQ'' ''en'' ''pt'' [(0, 2, ''one''), (2, 2, ''two''), (4, 2, ''three'')],
       Poll 0, PickUp 0,
       Advance 0 0 ''gemini'' (Translated ''um''), Poll 0,
       Advance 0 2 ''gemini'' (Translated ''tres''), Poll 0,
       Advance 0 1 ''gemini'' (Translated ''dois''), Poll 0]"]
  by (simp add: jm_init_def submit_def new_job_def update_job_def pickUp_def advance_def
      advance_job_def job_status_endpoint_def getStatus_def completedSegments_def
      totalSegments_def)

text \<open>
  Claim C6. Every job-status response that a poll returns, for every job and every course
  of events of the Job Manager, has one of the four statuses queued, processing,
  completed, error, and a progress from 0 to 100; the client's badge has a label of its
  own for each of the four statuses, so that the default branch of \<^verbatim>\<open>getStatusText\<close> is
  not taken.
\<close>

theorem polled_status_and_progress_range:
  "\<forall>r \<in> set (polled jid (jm_init providers) es).
     status r \<in> {Queued, Processing, Completed, Error} \<and>
     0 \<le> progress r \<and> progress r \<le> 100 \<and>
     getStatusText (status_literal (status r))
       \<in> {''Na fila'', ''Processando'', label_completed, ''Erro''}"
proof
  fix r assume r: "r \<in> set (polled jid (jm_init providers) es)"
  from polled_sorted [OF jm_init_ok, of jid providers es] r
  have "int (progress_of (jm_init providers) jid) \<le> progress r" and hi: "progress r \<le> 100"
    by simp_all
  then have lo: "0 \<le> progress r" by simp
  have st: "status r \<in> {Queued, Processing, Completed, Error}"
    by (cases "status r") simp_all
  have "getStatusText (status_literal (status r))
       \<in> {''Na fila'', ''Processando'', label_completed, ''Erro''}"
    by (cases "status r") (simp_all add: getStatusText_def)
  with st lo hi show "status r \<in> {Queued, Processing, Completed, Error} \<and>
     0 \<le> progress r \<and> progress r \<le> 100 \<and>
     getStatusText (status_literal (status r))
       \<in> {''Na fila'', ''Processando'', label_completed, ''Erro''}" by simp
qed

theorem polled_status_and_progress_range_witness:
  "map (\<lambda>r. (status r, progress r, getStatusText (status_literal (status r))))
     (polled 0 (jm_init [''gemini''])
        [Submit ''dQw4w9WgXcQ'' ''en'' ''pt'' [(0, 2, ''one''), (2, 2, ''two'')],
         Poll 0, PickUp 0, Advance 0 0 ''gemini'' (Translated ''um''), Poll 0,
         Advance 0 1 ''gemini'' (Exhausted Timeout), Poll 0])
   = [(Queued, 0, ''Na fila''), (Processing, 50, ''Processando''), (Error, 50, ''Erro'')]"
  using polled_status_and_progress_range [of 0 "[''gemini'']"
        "[Submit ''dQw4w9WgXcQ'' ''en'' ''pt'' [(0, 2, ''one''), (2, 2, ''two'')],
         Poll 0, PickUp 0, Advance 0 0 ''gemini'' (Translated ''um''), Poll 0,
         Advance 0 1 ''gemini'' (Exhausted Timeout), Poll 0]"]
  by (simp add: jm_init_def submit_def new_job_def update_job_def pickUp_def advance_def
      advance_job_def job_status_endpoint_def getStatus_def completedSegments_def
      totalSegments_def getStatusText_def numeral_2_eq_2 [symmetric])

text \<open>
  Claim C3. In every round for one segment, over the candidates in priority order, the
  calls made are a subsequence of the candidate list (candidates are attempted in
  priority order, none out of turn), every call but the last one failed, a successful
  round ends with the call that succeeded, and when the first candidate P1 is attempted
  and succeeds, the call to P1 is the only call of the round: no call to P2..Pn is made.
\<close>

theorem first_success_short_circuits:
  "subseq (attempted (translate_segment worker blocked priority creds))
          (candidates priority creds) \<and>
   (\<forall>c \<in> set (butlast (attempted (translate_segment worker blocked priority creds))).
       \<exists>f. worker c = Failed f) \<and>
   (\<forall>c t. verdict (translate_segment worker blocked priority creds) = Inr (c, t) \<longrightarrow>
       attempted (translate_segment worker blocked priority creds) \<noteq> [] \<and>
       last (attempted (translate_segment worker blocked priority creds)) = c \<and>
       worker c = Succeeded t) \<and>
   (\<forall>p1 rest t. candidates priority creds = p1 # rest \<and> p1 \<notin> set blocked \<and>
         worker p1 = Succeeded t \<longrightarrow>
       attempted (translate_segment worker blocked priority creds) = [p1] \<and>
       verdict (translate_segment worker blocked priority creds) = Inr (p1, t))"
proof -
  let ?r = "translate_segment worker blocked priority creds"
  have a: "subseq (attempted ?r) (candidates priority creds)"
    by (simp add: translate_segment_def route_subseq)
  have b: "\<forall>c \<in> set (butlast (attempted ?r)). \<exists>f. worker c = Failed f"
    using route_butlast_failed [of _ worker blocked None "candidates priority creds"]
    by (simp add: translate_segment_def)
  have c: "\<forall>c t. verdict ?r = Inr (c, t) \<longrightarrow>
       attempted ?r \<noteq> [] \<and> last (attempted ?r) = c \<and> worker c = Succeeded t"
    using route_success_last [of worker blocked None "candidates priority creds"]
    by (simp add: translate_segment_def)
  have d: "\<forall>p1 rest t. candidates priority creds = p1 # rest \<and> p1 \<notin> set blocked \<and>
         worker p1 = Succeeded t \<longrightarrow>
       attempted ?r = [p1] \<and> verdict ?r = Inr (p1, t)"
    by (simp add: translate_segment_def)
  from a b c d show ?thesis by blast
qed

theorem first_success_short_circuits_witness:
  "attempted (translate_segment
      (\<lambda>c. if provider c = ''gemini'' then Succeeded ''ola'' else Failed Timeout) []
      [(''gemini'', ''gemini-pro''), (''openrouter'', ''llama''), (''groq'', ''mixtral'')]
      [\<lparr> cred_provider = ''groq'', secret = ''k3'', paid_tier = False \<rparr>,
       \<lparr> cred_provider = ''gemini'', secret = ''k1'', paid_tier = False \<rparr>])
   = [\<lparr> provider = ''gemini'', model = ''gemini-pro'', credential = ''k1'' \<rparr>]"
  using first_success_short_circuits
    [of "\<lambda>c. if provider c = ''gemini'' then Succeeded ''ola'' else Failed Timeout" "[]"
      "[(''gemini'', ''gemini-pro''), (''openrouter'', ''llama''), (''groq'', ''mixtral'')]"
      "[\<lparr> cred_provider = ''groq'', secret = ''k3'', paid_tier = False \<rparr>,
        \<lparr> cred_provider = ''gemini'', secret = ''k1'', paid_tier = False \<rparr>]"]
  by (simp add: candidates_def translate_segment_def)

section \<open>Properties of submitting\<close>

text \<open>
  Claim C4. With no API key stored (\<^verbatim>\<open>geminiApiKey\<close> null or empty), \<^verbatim>\<open>handleUrlSubmit\<close>
  only alerts that the key must be configured: the state is unchanged (no job id) and no
  request is issued. In the Job Manager, \<^verbatim>\<open>submit\<close> with no configured provider returns
  \<^verbatim>\<open>NoProviderConfigured\<close> and the endpoint answers 400 with the manager unchanged (no
  Job created). With a configured provider \<^verbatim>\<open>submit\<close> returns the new job id at once:
  the job is appended queued, with progress 0 and no segment translated. In the client,
  with a key, a valid URL, no existing translation and an accepted request, the handler
  stores the job id of the response after the check and the process request, and does
  nothing else.
\<close>

theorem submit_requires_provider:
  "(\<not> truthy (geminiApiKey st) \<longrightarrow> handleUrlSubmit env st u = (st, [Alert msg_no_key])) \<and>
   (configured m = [] \<longrightarrow>
      submit m vid src tgt raw = Inl NoProviderConfigured \<and>
      code (fst (submit_translation_job m vid src tgt raw)) = 400 \<and>
      snd (submit_translation_job m vid src tgt raw) = m) \<and>
   (configured m \<noteq> [] \<longrightarrow>
      submit m vid src tgt raw
        = Inr (length (jobs m),
               m \<lparr> jobs := jobs m @ [new_job (length (jobs m)) vid src tgt raw] \<rparr>) \<and>
      job_status (new_job (length (jobs m)) vid src tgt raw) = Queued \<and>
      job_progress (new_job (length (jobs m)) vid src tgt raw) = 0 \<and>
      completedSegments (new_job (length (jobs m)) vid src tgt raw) = 0) \<and>
   (geminiApiKey st = Some k \<and> k \<noteq> [] \<and> extractVideoId u = Some extractedId \<and>
    api_check env u (sourceLanguage st) (targetLanguage st) = Inr chk \<and>
    \<not> (check_exists chk \<and> truthy (check_video_id chk)) \<and>
    api_process env \<lparr> youtube_url = u, source_language = sourceLanguage st,
                       target_language = targetLanguage st, gemini_api_key = k,
                       force_retranslate = None \<rparr> = Inr response \<longrightarrow>
      handleUrlSubmit env st u
        = (st \<lparr> youtubeUrl := u, videoId := Some extractedId, processing := True,
                jobId := Some (resp_job_id response) \<rparr>,
           [CallCheck u (sourceLanguage st) (targetLanguage st),
            CallProcess \<lparr> youtube_url = u, source_language = sourceLanguage st,
                          target_language = targetLanguage st, gemini_api_key = k,
                          force_retranslate = None \<rparr>]))"
proof -
  have a: "\<not> truthy (geminiApiKey st) \<longrightarrow> handleUrlSubmit env st u = (st, [Alert msg_no_key])"
    by (cases "geminiApiKey st") (simp_all add: handleUrlSubmit_def)
  have b: "configured m = [] \<longrightarrow>
      submit m vid src tgt raw = Inl NoProviderConfigured \<and>
      code (fst (submit_translation_job m vid src tgt raw)) = 400 \<and>
      snd (submit_translation_job m vid src tgt raw) = m"
    by (simp add: submit_def submit_translation_job_def)
  have "completedSegments (new_job (length (jobs m)) vid src tgt raw) = 0"
    by (rule new_job_completed)
  then have c: "configured m \<noteq> [] \<longrightarrow>
      submit m vid src tgt raw
        = Inr (length (jobs m),
               m \<lparr> jobs := jobs m @ [new_job (length (jobs m)) vid src tgt raw] \<rparr>) \<and>
      job_status (new_job (length (jobs m)) vid src tgt raw) = Queued \<and>
      job_progress (new_job (length (jobs m)) vid src tgt raw) = 0 \<and>
      completedSegments (new_job (length (jobs m)) vid src tgt raw) = 0"
    by (simp add: submit_def Let_def new_job_def)
  have d: "geminiApiKey st = Some k \<and> k \<noteq> [] \<and> extractVideoId u = Some extractedId \<and>
    api_check env u (sourceLanguage st) (targetLanguage st) = Inr chk \<and>
    \<not> (check_exists chk \<and> truthy (check_video_id chk)) \<and>
    api_process env \<lparr> youtube_url = u, source_language = sourceLanguage st,
                       target_language = targetLanguage st, gemini_api_key = k,
                       force_retranslate = None \<rparr> = Inr response \<longrightarrow>
      handleUrlSubmit env st u
        = (st \<lparr> youtubeUrl := u, videoId := Some extractedId, processing := True,
                jobId := Some (resp_job_id response) \<rparr>,
           [CallCheck u (sourceLanguage st) (targetLanguage st),
            CallProcess \<lparr> youtube_url = u, source_language = sourceLanguage st,
                          target_language = targetLanguage st, gemini_api_key = k,
                          force_retranslate = None \<rparr>])"
    by (simp add: handleUrlSubmit_def Let_def)
  from a b c d show ?thesis by blast
qed

theorem submit_requires_provider_witness:
  "handleUrlSubmit
     \<lparr> api_check = (\<lambda>u a b. Inr \<lparr> check_exists = False, check_translation_id = None,
                                      check_video_id = None \<rparr>),
       api_process = (\<lambda>req. videoApi_process
          (fst (submit_translation_job (jm_init [''gemini'']) ''dQw4w9WgXcQ''
                  (source_language req) (target_language req) [(0, 2, ''hello'')]))),
       window_confirm = False \<rparr>
     \<lparr> youtubeUrl = [], videoId = None, sourceLanguage = ''en'', targetLanguage = ''pt'',
       geminiApiKey = None, jobId = None, processing = False \<rparr>
     ''https://youtu.be/dQw4w9WgXcQ''
   = (\<lparr> youtubeUrl = [], videoId = None, sourceLanguage = ''en'', targetLanguage = ''pt'',
        geminiApiKey = None, jobId = None, processing = False \<rparr>, [Alert msg_no_key]) \<and>
   submit (jm_init []) ''dQw4w9WgXcQ'' ''en'' ''pt'' [(0, 2, ''hello'')]
     = Inl NoProviderConfigured \<and>
   map_sum id fst (submit (jm_init [''gemini'']) ''dQw4w9WgXcQ'' ''en'' ''pt'' [(0, 2, ''hello'')])
     = Inr 0 \<and>
   fst (handleUrlSubmit
     \<lparr> api_check = (\<lambda>u a b. Inr \<lparr> check_exists = False, check_translation_id = None,
                                      check_video_id = None \<rparr>),
       api_process = (\<lambda>req. videoApi_process
          (fst (submit_translation_job (jm_init [''gemini'']) ''dQw4w9WgXcQ''
                  (source_language req) (target_language req) [(0, 2, ''hello'')]))),
       window_confirm = False \<rparr>
     \<lparr> youtubeUrl = [], videoId = None, sourceLanguage = ''en'', targetLanguage = ''pt'',
       geminiApiKey = Some ''key'', jobId = None, processing = False \<rparr>
     ''https://youtu.be/dQw4w9WgXcQ'')
   = \<lparr> youtubeUrl = ''https://youtu.be/dQw4w9WgXcQ'', videoId = Some ''dQw4w9WgXcQ'',
       sourceLanguage = ''en'', targetLanguage = ''pt'', geminiApiKey = Some ''key'',
       jobId = Some ''job-0'', processing = True \<rparr>"
proof -
  let ?env = "\<lparr> api_check = (\<lambda>u a b. Inr \<lparr> check_exists = False, check_translation_id = None,
                                      check_video_id = None \<rparr>),
       api_process = (\<lambda>req. videoApi_process
          (fst (submit_translation_job (jm_init [''gemini'']) ''dQw4w9WgXcQ''
                  (source_language req) (target_language req) [(0, 2, ''hello'')]))),
       window_confirm = False \<rparr>"
  let ?st = "\<lparr> youtubeUrl = [], videoId = None, sourceLanguage = ''en'', targetLanguage = ''pt'',
       geminiApiKey = Some ''key'', jobId = None, processing = False \<rparr>"
  have url: "extractVideoId ''https://youtu.be/dQw4w9WgXcQ'' = Some ''dQw4w9WgXcQ''"
    by (simp add: extractVideoId_def pattern1_here_def literal_then_id_def after_def
        id11_def idchar_def)
  have name: "job_name 0 = ''job-0''"
    by (simp add: job_name_def decimal.simps)
  have proc: "api_process ?env \<lparr> youtube_url = ''https://youtu.be/dQw4w9WgXcQ'',
        source_language = ''en'', target_language = ''pt'', gemini_api_key = ''key'',
        force_retranslate = None \<rparr>
      = Inr \<lparr> resp_job_id = ''job-0'', resp_status = ''queued'', resp_message = [] \<rparr>"
    by (simp add: videoApi_process_def submit_translation_job_def submit_def jm_init_def
        identical_in_flight_def name)
  from submit_requires_provider
    [of "?st \<lparr> geminiApiKey := None \<rparr>" ?env "''https://youtu.be/dQw4w9WgXcQ''"
      "jm_init []" "''dQw4w9WgXcQ''" "''en''" "''pt''" "[(0, 2, ''hello'')]"]
  have 1: "handleUrlSubmit ?env (?st \<lparr> geminiApiKey := None \<rparr>)
             ''https://youtu.be/dQw4w9WgXcQ''
           = (?st \<lparr> geminiApiKey := None \<rparr>, [Alert msg_no_key])"
    and 2: "submit (jm_init []) ''dQw4w9WgXcQ'' ''en'' ''pt'' [(0, 2, ''hello'')]
           = Inl NoProviderConfigured"
    by (simp_all add: jm_init_def)
  from submit_requires_provider
    [of ?st ?env "''https://youtu.be/dQw4w9WgXcQ''"
      "jm_init [''gemini'']" "''dQw4w9WgXcQ''" "''en''" "''pt''" "[(0, 2, ''hello'')]"
      "''key''" "''dQw4w9WgXcQ''"
      "\<lparr> check_exists = False, check_translation_id = None, check_video_id = None \<rparr>"
      "\<lparr> resp_job_id = ''job-0'', resp_status = ''queued'', resp_message = [] \<rparr>"]
    url proc
  have 3: "map_sum id fst
             (submit (jm_init [''gemini'']) ''dQw4w9WgXcQ'' ''en'' ''pt'' [(0, 2, ''hello'')])
           = Inr 0"
    and 4: "fst (handleUrlSubmit ?env ?st ''https://youtu.be/dQw4w9WgXcQ'')
           = ?st \<lparr> youtubeUrl := ''https://youtu.be/dQw4w9WgXcQ'',
                   videoId := Some ''dQw4w9WgXcQ'', processing := True,
                   jobId := Some ''job-0'' \<rparr>"
    by (simp_all add: jm_init_def)
  from 1 2 3 4 show ?thesis by simp
qed

text \<open>
  Claim C5. The submit endpoint answers 400 when no provider is configured, 409 when a
  provider is configured and an identical Job (same video, source and target language)
  is queued or processing, and 202 with a new queued Job otherwise; in the first two
  cases the manager is unchanged. The client's submit path conforms: for a stored key
  and a valid URL, after the existence check (no translation exists, or the user asks to
  retranslate, which sends \<^verbatim>\<open>force_retranslate\<close>), the handler issues the process request;
  on 202 it stores the job id of the new Job and stays in processing, so that polling
  starts; on 409 or 400 it alerts the detail of the reply, leaves the job id as it was
  and ends processing.
\<close>

theorem submit_endpoint_contract:
  assumes key: "truthy (geminiApiKey st)"
    and url: "extractVideoId u = Some vid"
    and chk: "api_check env u (sourceLanguage st) (targetLanguage st) = Inr chk"
    and go: "check_exists chk \<and> truthy (check_video_id chk) \<Longrightarrow> window_confirm env"
    and reply: "submit_translation_job m vid (sourceLanguage st) (targetLanguage st) raw
                  = (reply, m')"
    and proc: "\<And>req. api_process env req = videoApi_process reply"
  shows "(configured m = [] \<longrightarrow> code reply = 400 \<and> m' = m) \<and>
         (configured m \<noteq> [] \<and>
          identical_in_flight m vid (sourceLanguage st) (targetLanguage st) \<longrightarrow>
            code reply = 409 \<and> m' = m) \<and>
         (configured m \<noteq> [] \<and>
          \<not> identical_in_flight m vid (sourceLanguage st) (targetLanguage st) \<longrightarrow>
            code reply = 202 \<and>
            jobs m' = jobs m @ [new_job (length (jobs m)) vid
                                  (sourceLanguage st) (targetLanguage st) raw]) \<and>
         code reply \<in> {202, 409, 400} \<and>
         (code reply = 202 \<longrightarrow>
            jobId (fst (handleUrlSubmit env st u)) = Some (job_name (length (jobs m))) \<and>
            processing (fst (handleUrlSubmit env st u)) \<and>
            (\<exists>req. last (snd (handleUrlSubmit env st u)) = CallProcess req \<and>
                   youtube_url req = u \<and>
                   force_retranslate req
                     = (if check_exists chk \<and> truthy (check_video_id chk)
                        then Some True else None))) \<and>
         (code reply \<noteq> 202 \<longrightarrow>
            jobId (fst (handleUrlSubmit env st u)) = jobId st \<and>
            \<not> processing (fst (handleUrlSubmit env st u)) \<and>
            last (snd (handleUrlSubmit env st u)) = Alert (string_of (detail reply)))"
proof -
  from key obtain k where k: "geminiApiKey st = Some k" "k \<noteq> []"
    by (cases "geminiApiKey st") auto
  from reply have a: "configured m = [] \<longrightarrow> code reply = 400 \<and> m' = m"
    by (auto simp: submit_translation_job_def)
  from reply have b: "configured m \<noteq> [] \<and>
          identical_in_flight m vid (sourceLanguage st) (targetLanguage st) \<longrightarrow>
            code reply = 409 \<and> m' = m"
    by (auto simp: submit_translation_job_def)
  from reply have c: "configured m \<noteq> [] \<and>
          \<not> identical_in_flight m vid (sourceLanguage st) (targetLanguage st) \<longrightarrow>
            code reply = 202 \<and> accepted reply = Some (length (jobs m)) \<and>
            jobs m' = jobs m @ [new_job (length (jobs m)) vid
                                  (sourceLanguage st) (targetLanguage st) raw]"
    by (auto simp: submit_translation_job_def submit_def Let_def)
  from reply have d: "code reply \<noteq> 202 \<longrightarrow>
       (code reply = 400 \<or> code reply = 409) \<and> truthy (detail reply)"
    by (auto simp: submit_translation_job_def submit_def Let_def split: if_splits)
  have ok: "code reply = 202 \<Longrightarrow>
      videoApi_process reply
        = Inr \<lparr> resp_job_id = job_name (length (jobs m)), resp_status = ''queued'',
                 resp_message = [] \<rparr>"
    using a b c by (cases "configured m = []") (auto simp: videoApi_process_def)
  have bad: "code reply \<noteq> 202 \<Longrightarrow>
      videoApi_process reply
        = Inl \<lparr> err_status = Some (code reply), err_detail = detail reply \<rparr>"
    using d by (auto simp: videoApi_process_def)
  have e: "code reply = 202 \<longrightarrow>
            jobId (fst (handleUrlSubmit env st u)) = Some (job_name (length (jobs m))) \<and>
            processing (fst (handleUrlSubmit env st u)) \<and>
            (\<exists>req. last (snd (handleUrlSubmit env st u)) = CallProcess req \<and>
                   youtube_url req = u \<and>
                   force_retranslate req
                     = (if check_exists chk \<and> truthy (check_video_id chk)
                        then Some True else None))"
    using k url chk go ok
    by (auto simp: handleUrlSubmit_def Let_def proc)
  have f: "code reply \<noteq> 202 \<longrightarrow>
            jobId (fst (handleUrlSubmit env st u)) = jobId st \<and>
            \<not> processing (fst (handleUrlSubmit env st u)) \<and>
            last (snd (handleUrlSubmit env st u)) = Alert (string_of (detail reply))"
    using k url chk go bad d
    by (auto simp: handleUrlSubmit_def Let_def proc on_error_def errorMessage_def)
  from a b c d have g: "code reply \<in> {202, 409, 400}" by auto
  from a b c e f g show ?thesis by blast
qed

theorem submit_endpoint_contract_witness:
  "fst (submit_translation_job (jm_init [''gemini'']) ''dQw4w9WgXcQ'' ''en'' ''pt''
          [(0, 2, ''hello'')])
     = \<lparr> code = 202, accepted = Some 0, detail = None \<rparr> \<and>
   fst (submit_translation_job
          (snd (submit_translation_job (jm_init [''gemini'']) ''dQw4w9WgXcQ'' ''en'' ''pt''
                  [(0, 2, ''hello'')]))
          ''dQw4w9WgXcQ'' ''en'' ''pt'' [(0, 2, ''hello'')])
     = \<lparr> code = 409, accepted = None, detail = Some ''JobAlreadyInFlight'' \<rparr> \<and>
   handleUrlSubmit
     \<lparr> api_check = (\<lambda>u a b. Inr \<lparr> check_exists = False, check_translation_id = None,
                                      check_video_id = None \<rparr>),
       api_process = (\<lambda>req. videoApi_process
          \<lparr> code = 409, accepted = None, detail = Some ''JobAlreadyInFlight'' \<rparr>),
       window_confirm = False \<rparr>
     \<lparr> youtubeUrl = [], videoId = None, sourceLanguage = ''en'', targetLanguage = ''pt'',
       geminiApiKey = Some ''key'', jobId = None, processing = False \<rparr>
     ''https://youtu.be/dQw4w9WgXcQ''
   = (\<lparr> youtubeUrl = ''https://youtu.be/dQw4w9WgXcQ'', videoId = Some ''dQw4w9WgXcQ'',
        sourceLanguage = ''en'', targetLanguage = ''pt'', geminiApiKey = Some ''key'',
        jobId = None, processing = False \<rparr>,
      [CallCheck ''https://youtu.be/dQw4w9WgXcQ'' ''en'' ''pt'',
       CallProcess \<lparr> youtube_url = ''https://youtu.be/dQw4w9WgXcQ'',
                     source_language = ''en'', target_language = ''pt'',
                     gemini_api_key = ''key'', force_retranslate = None \<rparr>,
       Alert ''JobAlreadyInFlight''])"
proof -
  let ?reply = "\<lparr> code = 409, accepted = None, detail = Some ''JobAlreadyInFlight'' \<rparr>"
  let ?chk = "\<lparr> check_exists = False, check_translation_id = None, check_video_id = None \<rparr>"
  let ?env = "\<lparr> api_check = (\<lambda>u a b. Inr ?chk),
       api_process = (\<lambda>req. videoApi_process ?reply), window_confirm = False \<rparr>"
  let ?st = "\<lparr> youtubeUrl = [], videoId = None, sourceLanguage = ''en'', targetLanguage = ''pt'',
       geminiApiKey = Some ''key'', jobId = None, processing = False \<rparr>"
  let ?u = "''https://youtu.be/dQw4w9WgXcQ''"
  let ?m1 = "snd (submit_translation_job (jm_init [''gemini'']) ''dQw4w9WgXcQ'' ''en'' ''pt''
                  [(0, 2, ''hello'')])"
  have first: "fst (submit_translation_job (jm_init [''gemini'']) ''dQw4w9WgXcQ'' ''en'' ''pt''
          [(0, 2, ''hello'')]) = \<lparr> code = 202, accepted = Some 0, detail = None \<rparr>"
    by (simp add: submit_translation_job_def submit_def jm_init_def identical_in_flight_def)
  have key: "truthy (geminiApiKey ?st)" by simp
  have url: "extractVideoId ?u = Some ''dQw4w9WgXcQ''"
    by (simp add: extractVideoId_def pattern1_here_def literal_then_id_def after_def
        id11_def idchar_def)
  have chk: "api_check ?env ?u (sourceLanguage ?st) (targetLanguage ?st) = Inr ?chk" by simp
  have go: "check_exists ?chk \<and> truthy (check_video_id ?chk) \<Longrightarrow> window_confirm ?env"
    by simp
  have reply: "submit_translation_job ?m1 ''dQw4w9WgXcQ'' (sourceLanguage ?st)
                 (targetLanguage ?st) [(0, 2, ''hello'')] = (?reply, ?m1)"
    by (simp add: submit_translation_job_def submit_def jm_init_def identical_in_flight_def
        in_flight_def new_job_def)
  have proc: "\<And>req. api_process ?env req = videoApi_process ?reply" by simp
  from reply have second: "fst (submit_translation_job ?m1 ''dQw4w9WgXcQ'' ''en'' ''pt''
                 [(0, 2, ''hello'')]) = ?reply" by simp
  from submit_endpoint_contract [OF key url chk go reply proc]
  have "jobId (fst (handleUrlSubmit ?env ?st ?u)) = jobId ?st \<and>
        \<not> processing (fst (handleUrlSubmit ?env ?st ?u)) \<and>
        last (snd (handleUrlSubmit ?env ?st ?u)) = Alert ''JobAlreadyInFlight''"
    by simp
  then have third: "handleUrlSubmit ?env ?st ?u
      = (?st \<lparr> youtubeUrl := ?u, videoId := Some ''dQw4w9WgXcQ'' \<rparr>,
         [CallCheck ?u ''en'' ''pt'',
          CallProcess \<lparr> youtube_url = ?u, source_language = ''en'', target_language = ''pt'',
                        gemini_api_key = ''key'', force_retranslate = None \<rparr>,
          Alert ''JobAlreadyInFlight''])"
    using url
    by (simp add: handleUrlSubmit_def videoApi_process_def on_error_def errorMessage_def)
  from first second third show ?thesis by simp
qed

end
